theory Spec2Isabelle
  imports Main "HOL-Library.Sublist" "HOL-Library.AList" "HOL-Library.Code_Target_Nat"
begin

section \<open>Python values\<close>

text \<open>
  The program (\<^verbatim>\<open>rate.py\<close>) is glue between two web services. Everything it handles is a
  decoded JSON document: what the Notion client returns, what \<^verbatim>\<open>json.loads\<close> returns, and the
  property dictionaries it sends back. These are modelled by one datatype of Python values.

  A \<^verbatim>\<open>str\<close> is the list of its code points, each a natural number, so that every Python string
  has its value in the model. \<open>U\<close> turns a literal of the source, which is ASCII, into such a
  list. A \<^verbatim>\<open>dict\<close> is an association list in insertion order; its keys are strings, as the
  keys of every decoded JSON object are. A \<^verbatim>\<open>float\<close> is only ever tested for its type and its
  truth value, so it is kept as sign, magnitude and exponent (\<open>Finite s m e\<close> is
  \<open>\<plusminus> m * 2 ^ e\<close>, zero when \<open>m = 0\<close>), an infinity or a NaN.
\<close>

type_synonym pystr = "nat list"

definition U :: "string \<Rightarrow> pystr" where
  "U s = map of_char s"

datatype pyfloat = Finite bool nat int | Infinite bool | NaN

datatype pyval =
    PNone
  | PBool bool
  | PInt int
  | PFloat pyfloat
  | PStr pystr
  | PList "pyval list"
  | PDict "(pystr \<times> pyval) list"

text \<open>
  The exceptions the program can meet. \<open>OtherError\<close> stands for every other subclass of
  \<^verbatim>\<open>Exception\<close>, by name (the HTTP and API errors of the two clients, for instance).
  \<^verbatim>\<open>BaseException\<close>s that are not \<^verbatim>\<open>Exception\<close>s (a keyboard interrupt) are outside the model.
  A computation that may raise returns \<open>exn + 'a\<close>, with \<open>Inl\<close> the exception.
\<close>

datatype exn = KeyError | IndexError | TypeError | AttributeError | ValueError | OtherError string

definition and_then :: "exn + 'a \<Rightarrow> ('a \<Rightarrow> exn + 'b) \<Rightarrow> exn + 'b" where
  "and_then m f = (case m of Inl ex \<Rightarrow> Inl ex | Inr x \<Rightarrow> f x)"

subsection \<open>Truth value, length, iteration\<close>

fun py_truthy :: "pyval \<Rightarrow> bool" where
  "py_truthy PNone = False"
| "py_truthy (PBool b) = b"
| "py_truthy (PInt i) = (i \<noteq> 0)"
| "py_truthy (PFloat (Finite s m e)) = (m \<noteq> 0)"
| "py_truthy (PFloat (Infinite s)) = True"
| "py_truthy (PFloat NaN) = True"
| "py_truthy (PStr s) = (s \<noteq> [])"
| "py_truthy (PList xs) = (xs \<noteq> [])"
| "py_truthy (PDict kvs) = (kvs \<noteq> [])"

text \<open>\<^verbatim>\<open>len(v)\<close>\<close>

fun py_len :: "pyval \<Rightarrow> exn + nat" where
  "py_len (PStr s) = Inr (length s)"
| "py_len (PList xs) = Inr (length xs)"
| "py_len (PDict kvs) = Inr (length kvs)"
| "py_len _ = Inl TypeError"

text \<open>\<^verbatim>\<open>for x in v\<close>: the items visited, in order. A dict yields its keys, a string its characters.\<close>

fun py_iter :: "pyval \<Rightarrow> exn + pyval list" where
  "py_iter (PList xs) = Inr xs"
| "py_iter (PStr s) = Inr (map (\<lambda>c. PStr [c]) s)"
| "py_iter (PDict kvs) = Inr (map (\<lambda>kv. PStr (fst kv)) kvs)"
| "py_iter _ = Inl TypeError"

subsection \<open>Subscripts, \<^verbatim>\<open>get\<close>, \<^verbatim>\<open>in\<close>, attributes\<close>

text \<open>
  \<^verbatim>\<open>xs[i]\<close> on a sequence: position \<open>i\<close> from the front, or from the back when \<open>i\<close> is negative;
  \<^verbatim>\<open>IndexError\<close> outside.
\<close>

definition seq_index :: "'a list \<Rightarrow> int \<Rightarrow> exn + 'a" where
  "seq_index xs i =
     (if 0 \<le> i \<and> i < int (length xs) then Inr (xs ! nat i)
      else if i < 0 \<and> - int (length xs) \<le> i then Inr (xs ! nat (int (length xs) + i))
      else Inl IndexError)"

definition str_index :: "pystr \<Rightarrow> int \<Rightarrow> exn + pyval" where
  "str_index s i = (case seq_index s i of Inl ex \<Rightarrow> Inl ex | Inr c \<Rightarrow> Inr (PStr [c]))"

text \<open>
  \<^verbatim>\<open>v[k]\<close>. A dict raises \<^verbatim>\<open>TypeError\<close> for an unhashable key and \<^verbatim>\<open>KeyError\<close> for a missing one
  (any key that is not a string is missing). A \<^verbatim>\<open>bool\<close> is an \<^verbatim>\<open>int\<close> and indexes as 0 or 1.
\<close>

fun py_getitem :: "pyval \<Rightarrow> pyval \<Rightarrow> exn + pyval" where
  "py_getitem (PDict kvs) (PStr k) = (case map_of kvs k of None \<Rightarrow> Inl KeyError | Some v \<Rightarrow> Inr v)"
| "py_getitem (PDict kvs) (PList ks) = Inl TypeError"
| "py_getitem (PDict kvs) (PDict ks) = Inl TypeError"
| "py_getitem (PDict kvs) k = Inl KeyError"
| "py_getitem (PList xs) (PInt i) = seq_index xs i"
| "py_getitem (PList xs) (PBool b) = seq_index xs (if b then 1 else 0)"
| "py_getitem (PList xs) k = Inl TypeError"
| "py_getitem (PStr s) (PInt i) = str_index s i"
| "py_getitem (PStr s) (PBool b) = str_index s (if b then 1 else 0)"
| "py_getitem (PStr s) k = Inl TypeError"
| "py_getitem v k = Inl TypeError"

text \<open>\<^verbatim>\<open>v[k1][k2]...\<close>, left to right.\<close>

fun py_path :: "pyval \<Rightarrow> pyval list \<Rightarrow> exn + pyval" where
  "py_path v [] = Inr v"
| "py_path v (k # ks) = (case py_getitem v k of Inl ex \<Rightarrow> Inl ex | Inr w \<Rightarrow> py_path w ks)"

text \<open>\<^verbatim>\<open>v.get(k, d)\<close>: only a dict has the method.\<close>

fun py_get :: "pyval \<Rightarrow> pyval \<Rightarrow> pyval \<Rightarrow> exn + pyval" where
  "py_get (PDict kvs) (PStr k) d = Inr (case map_of kvs k of None \<Rightarrow> d | Some v \<Rightarrow> v)"
| "py_get (PDict kvs) (PList ks) d = Inl TypeError"
| "py_get (PDict kvs) (PDict ks) d = Inl TypeError"
| "py_get (PDict kvs) k d = Inr d"
| "py_get v k d = Inl AttributeError"

text \<open>
  \<^verbatim>\<open>k in v\<close> for a string \<open>k\<close>: a key of a dict, an item of a list, a substring of a string.
\<close>

fun py_contains :: "pystr \<Rightarrow> pyval \<Rightarrow> exn + bool" where
  "py_contains k (PDict kvs) = Inr (k \<in> set (map fst kvs))"
| "py_contains k (PList xs) = Inr (PStr k \<in> set xs)"
| "py_contains k (PStr s) = Inr (sublist k s)"
| "py_contains k v = Inl TypeError"

text \<open>
  \<^verbatim>\<open>v.name\<close> on a response object of the OpenAI client. The object is modelled as the dict of
  its attributes.
\<close>

fun py_getattr :: "pyval \<Rightarrow> pystr \<Rightarrow> exn + pyval" where
  "py_getattr (PDict kvs) name = (case map_of kvs name of None \<Rightarrow> Inl AttributeError | Some v \<Rightarrow> Inr v)"
| "py_getattr v name = Inl AttributeError"

subsection \<open>String methods that look at code points only\<close>

text \<open>\<^verbatim>\<open>s.replace(a, b)\<close> for single characters \<open>a\<close> and \<open>b\<close>.\<close>

definition replace_char :: "nat \<Rightarrow> nat \<Rightarrow> pystr \<Rightarrow> pystr" where
  "replace_char a b s = map (\<lambda>c. if c = a then b else c) s"

text \<open>\<^verbatim>\<open>s.endswith(t)\<close>\<close>

definition endswith :: "pystr \<Rightarrow> pystr \<Rightarrow> bool" where
  "endswith s t = suffix t s"

text \<open>\<^verbatim>\<open>sep.join(items)\<close>: every item must be a string.\<close>

fun str_items :: "pyval list \<Rightarrow> exn + pystr list" where
  "str_items [] = Inr []"
| "str_items (PStr s # vs) = (case str_items vs of Inl ex \<Rightarrow> Inl ex | Inr ss \<Rightarrow> Inr (s # ss))"
| "str_items (v # vs) = Inl TypeError"

fun join_strs :: "pystr \<Rightarrow> pystr list \<Rightarrow> pystr" where
  "join_strs sep [] = []"
| "join_strs sep [s] = s"
| "join_strs sep (s # t # ss) = s @ sep @ join_strs sep (t # ss)"

definition py_join :: "pystr \<Rightarrow> pyval list \<Rightarrow> exn + pystr" where
  "py_join sep items = (case str_items items of Inl ex \<Rightarrow> Inl ex | Inr ss \<Rightarrow> Inr (join_strs sep ss))"

text \<open>The string \<^verbatim>\<open>"\n"\<close>: the line feed, code point 10.\<close>

definition newline :: pystr where
  "newline = [10]"

section \<open>The two services and the interpreter's tables\<close>

text \<open>
  The program talks to Notion and to OpenAI through four requests. A request either returns
  a value or raises. Both services are outside the program, so they are a parameter of the
  model: \<open>respond\<close> gives the outcome of the last request of a history of requests. Any
  deterministic service, with whatever state it keeps, is such a function. The state the
  program threads is the history of the requests it has issued.

  The standard library's \<^verbatim>\<open>json.loads\<close> (on a string) and the two identifiers read from the
  environment at start-up are parameters too. So are the tables of the Unicode database that
  \<^verbatim>\<open>str.strip\<close> and \<^verbatim>\<open>str.title\<close> consult, which belong to the interpreter and change with its
  version: which code points are whitespace, which are cased, the title-case mapping of a code
  point (one to three code points), and the lower-case mapping of the code point at a position
  of a string (it depends on the position for the Greek capital sigma). Console output is not
  modelled, except that the arguments of a \<^verbatim>\<open>print\<close> are evaluated where they can raise.
\<close>

text \<open>The pieces of an f-string: literal text and interpolated values.\<close>

datatype frag = Lit pystr | Val pyval

datatype call =
    BlocksChildrenList pystr
  | DatabasesQuery pystr pyval
  | ChatCompletionsCreate pystr pyval "(pystr \<times> frag list) list"
  | PagesUpdate pyval pyval

record env =
  respond :: "call list \<Rightarrow> exn + pyval"
  json_loads :: "pystr \<Rightarrow> exn + pyval"
  is_whitespace :: "nat \<Rightarrow> bool"
  is_cased :: "nat \<Rightarrow> bool"
  to_title :: "nat \<Rightarrow> pystr"
  lower_at :: "pystr \<Rightarrow> nat \<Rightarrow> pystr"
  RESPONSES_DB_ID :: pystr
  STANDARDS_PAGE_ID :: pystr

definition do_call :: "env \<Rightarrow> call \<Rightarrow> call list \<Rightarrow> (exn + pyval) \<times> call list" where
  "do_call e c tr = (respond e (tr @ [c]), tr @ [c])"

text \<open>\<^verbatim>\<open>json.loads(v)\<close>: anything but a string is a \<^verbatim>\<open>TypeError\<close>.\<close>

fun py_json_loads :: "env \<Rightarrow> pyval \<Rightarrow> exn + pyval" where
  "py_json_loads e (PStr s) = json_loads e s"
| "py_json_loads e v = Inl TypeError"

text \<open>\<^verbatim>\<open>s.strip()\<close>: the whitespace at both ends is dropped.\<close>

definition strip :: "env \<Rightarrow> pystr \<Rightarrow> pystr" where
  "strip e s = rev (dropWhile (is_whitespace e) (rev (dropWhile (is_whitespace e) s)))"

text \<open>
  \<^verbatim>\<open>s.title()\<close>, as the interpreter computes it: the code points of \<open>s\<close> are visited in order;
  one that follows a cased code point is replaced by its lower-case mapping at its position,
  any other one by its title-case mapping. \<open>prev\<close> is "the previous code point is cased" and
  \<open>i\<close> the position of the first code point still to visit.
\<close>

fun title_loop :: "env \<Rightarrow> pystr \<Rightarrow> bool \<Rightarrow> nat \<Rightarrow> pystr \<Rightarrow> pystr" where
  "title_loop e s prev i [] = []"
| "title_loop e s prev i (c # cs) =
     (if prev then lower_at e s i else to_title e c) @ title_loop e s (is_cased e c) (Suc i) cs"

definition title :: "env \<Rightarrow> pystr \<Rightarrow> pystr" where
  "title e s = title_loop e s False 0 s"

text \<open>
  What the tables say on ASCII, in every version of the interpreter: the cased code points
  below 128 are the letters, the title-case mapping of a letter is its capital, its
  lower-case mapping is its small letter, and every other code point below 128 is mapped to
  itself.
\<close>

definition ascii_letter :: "nat \<Rightarrow> bool" where
  "ascii_letter c = ((65 \<le> c \<and> c \<le> 90) \<or> (97 \<le> c \<and> c \<le> 122))"

definition ascii_upper :: "nat \<Rightarrow> nat" where
  "ascii_upper c = (if 97 \<le> c \<and> c \<le> 122 then c - 32 else c)"

definition ascii_lower :: "nat \<Rightarrow> nat" where
  "ascii_lower c = (if 65 \<le> c \<and> c \<le> 90 then c + 32 else c)"



section \<open>\<^verbatim>\<open>get_rating_criteria\<close>\<close>

text \<open>The inner loop: \<open>acc\<close> is \<^verbatim>\<open>criteria_text\<close>.\<close>

fun append_plain_texts :: "pyval list \<Rightarrow> pyval list \<Rightarrow> exn + pyval list" where
  "append_plain_texts [] acc = Inr acc"
| "append_plain_texts (text_element # rest) acc =
     (case py_getitem text_element (PStr (U ''plain_text'')) of
        Inl ex \<Rightarrow> Inl ex
      | Inr t \<Rightarrow> append_plain_texts rest (acc @ [t]))"

text \<open>
  The body of the outer loop. \<^verbatim>\<open>block.get\<close> is looked up before its arguments are evaluated,
  so a block that is not a dict is an \<^verbatim>\<open>AttributeError\<close>.
\<close>

definition block_step :: "pyval \<Rightarrow> pyval list \<Rightarrow> exn + pyval list" where
  "block_step block acc =
     (case block of
        PDict kvs \<Rightarrow>
          and_then (py_getitem block (PStr (U ''type''))) (\<lambda>ty.
          and_then (py_get block ty (PDict [])) (\<lambda>sub.
          and_then (py_contains (U ''rich_text'') sub) (\<lambda>has.
            if has then
              and_then (py_getitem block (PStr (U ''type''))) (\<lambda>ty2.
              and_then (py_getitem block ty2) (\<lambda>sub2.
              and_then (py_getitem sub2 (PStr (U ''rich_text''))) (\<lambda>rich_text.
              and_then (py_iter rich_text) (\<lambda>runs.
                append_plain_texts runs acc))))
            else Inr acc)))
      | _ \<Rightarrow> Inl AttributeError)"

fun collect_blocks :: "pyval list \<Rightarrow> pyval list \<Rightarrow> exn + pyval list" where
  "collect_blocks [] acc = Inr acc"
| "collect_blocks (block # rest) acc =
     (case block_step block acc of Inl ex \<Rightarrow> Inl ex | Inr acc' \<Rightarrow> collect_blocks rest acc')"

text \<open>
  The \<^verbatim>\<open>try\<close> block after the request has returned: first up to the join, then the test of
  the joined text.
\<close>

definition full_criteria :: "pyval \<Rightarrow> exn + pystr" where
  "full_criteria response =
     and_then (py_get response (PStr (U ''results'')) (PList [])) (\<lambda>blocks.
     and_then (py_iter blocks) (\<lambda>bs.
     and_then (collect_blocks bs []) (\<lambda>criteria_text.
       py_join newline criteria_text)))"

definition criteria_of_response :: "env \<Rightarrow> pyval \<Rightarrow> exn + pystr option" where
  "criteria_of_response e response =
     and_then (full_criteria response) (\<lambda>full.
       if strip e full = [] then Inr None else Inr (Some full))"

definition get_rating_criteria :: "env \<Rightarrow> call list \<Rightarrow> pystr option \<times> call list" where
  "get_rating_criteria e tr =
     (case do_call e (BlocksChildrenList (STANDARDS_PAGE_ID e)) tr of
        (Inl ex, tr') \<Rightarrow> (None, tr')
      | (Inr response, tr') \<Rightarrow>
          (case criteria_of_response e response of
             Inl ex \<Rightarrow> (None, tr')
           | Inr r \<Rightarrow> (r, tr')))"

section \<open>\<^verbatim>\<open>get_unrated_responses\<close>\<close>

definition status_filter :: pyval where
  "status_filter =
     PDict [(U ''property'', PStr (U ''Status'')),
            (U ''select'', PDict [(U ''equals'', PStr (U ''To be Rated''))])]"

text \<open>
  The \<^verbatim>\<open>print\<close> between the request and the \<^verbatim>\<open>return\<close> evaluates
  \<^verbatim>\<open>len(response['results'])\<close>, which can raise.
\<close>

definition results_of_response :: "pyval \<Rightarrow> exn + pyval" where
  "results_of_response response =
     and_then (py_getitem response (PStr (U ''results''))) (\<lambda>rs.
     and_then (py_len rs) (\<lambda>n.
       py_get response (PStr (U ''results'')) (PList [])))"

definition get_unrated_responses :: "env \<Rightarrow> call list \<Rightarrow> pyval \<times> call list" where
  "get_unrated_responses e tr =
     (case do_call e (DatabasesQuery (RESPONSES_DB_ID e) status_filter) tr of
        (Inl ex, tr') \<Rightarrow> (PList [], tr')
      | (Inr response, tr') \<Rightarrow>
          (case results_of_response response of
             Inl ex \<Rightarrow> (PList [], tr')
           | Inr rs \<Rightarrow> (rs, tr')))"

section \<open>\<^verbatim>\<open>get_rating_from_ai\<close>\<close>

definition prompt_intro :: pystr where
  \<open>prompt_intro = newline @ U
     ''You are an expert AI Quality Analyst. Your task is to evaluate a chatbot's response based on a set of predefined criteria. Provide your rating in a single, clean JSON object. Do not add any commentary, greetings, or explanations outside of the JSON structure.''
     @ newline @ newline @ U ''# RATING CRITERIA'' @ newline\<close>

definition prompt_interaction :: pystr where
  \<open>prompt_interaction = newline @ newline @ U ''# CHATBOT INTERACTION TO EVALUATE'' @ newline
     @ U ''User Prompt: "''\<close>

definition prompt_response :: pystr where
  \<open>prompt_response = U ''"'' @ newline @ U ''Chatbot Response: "''\<close>

definition prompt_task :: pystr where
  \<open>prompt_task = U ''"'' @ newline @ newline @ U ''# YOUR TASK'' @ newline @ U
     ''Analyze the "Chatbot Response" based on the "User Prompt" and the "RATING CRITERIA". Provide your evaluation as a single JSON object with keys for each score (e.g., "clarity_score", "accuracy_score") and a final key "evaluation_notes" which contains a brief justification for your ratings. The score keys in your JSON output must be in snake_case (e.g., 'clarity_score').''
     @ newline\<close>

definition master_prompt :: "pystr \<Rightarrow> pyval \<Rightarrow> pyval \<Rightarrow> frag list" where
  "master_prompt criteria user_prompt chatbot_response =
     [Lit prompt_intro, Val (PStr criteria), Lit prompt_interaction, Val user_prompt,
      Lit prompt_response, Val chatbot_response, Lit prompt_task]"

definition chat_request :: "pystr \<Rightarrow> pyval \<Rightarrow> pyval \<Rightarrow> call" where
  "chat_request criteria user_prompt chatbot_response =
     ChatCompletionsCreate (U ''gpt-4-turbo'') (PDict [(U ''type'', PStr (U ''json_object''))])
       [(U ''system'', [Lit (U ''You are an AI Quality Analyst that only outputs valid JSON.'')]),
        (U ''user'', master_prompt criteria user_prompt chatbot_response)]"

text \<open>\<^verbatim>\<open>response.choices[0].message.content\<close>\<close>

definition message_content :: "pyval \<Rightarrow> exn + pyval" where
  "message_content response =
     and_then (py_getattr response (U ''choices'')) (\<lambda>choices.
     and_then (py_getitem choices (PInt 0)) (\<lambda>choice.
     and_then (py_getattr choice (U ''message'')) (\<lambda>message.
       py_getattr message (U ''content''))))"

text \<open>\<^verbatim>\<open>json.loads(response.choices[0].message.content)\<close>\<close>

definition rating_of_response :: "env \<Rightarrow> pyval \<Rightarrow> exn + pyval" where
  "rating_of_response e response = and_then (message_content response) (py_json_loads e)"

definition get_rating_from_ai ::
  "env \<Rightarrow> pystr \<Rightarrow> pyval \<Rightarrow> pyval \<Rightarrow> call list \<Rightarrow> pyval \<times> call list" where
  "get_rating_from_ai e criteria user_prompt chatbot_response tr =
     (case do_call e (chat_request criteria user_prompt chatbot_response) tr of
        (Inl ex, tr') \<Rightarrow> (PNone, tr')
      | (Inr response, tr') \<Rightarrow>
          (case rating_of_response e response of
             Inl ex \<Rightarrow> (PNone, tr')
           | Inr rating \<Rightarrow> (rating, tr')))"

section \<open>\<^verbatim>\<open>update_notion_page\<close>\<close>

text \<open>\<^verbatim>\<open>isinstance(value, (int, float))\<close>: a \<^verbatim>\<open>bool\<close> is an \<^verbatim>\<open>int\<close>.\<close>

fun is_int_or_float :: "pyval \<Rightarrow> bool" where
  "is_int_or_float (PInt i) = True"
| "is_int_or_float (PBool b) = True"
| "is_int_or_float (PFloat f) = True"
| "is_int_or_float v = False"

text \<open>\<^verbatim>\<open>key.replace('_', ' ').title()\<close>: the underscore is code point 95, the space 32.\<close>

definition prop_name :: "env \<Rightarrow> pystr \<Rightarrow> pystr" where
  "prop_name e key = title e (replace_char 95 32 key)"

definition number_prop :: "pyval \<Rightarrow> pyval" where
  "number_prop v = PDict [(U ''number'', v)]"

definition notes_prop :: "pyval \<Rightarrow> pyval" where
  "notes_prop v =
     PDict [(U ''rich_text'', PList [PDict [(U ''text'', PDict [(U ''content'', v)])]])]"

definition select_prop :: "pystr \<Rightarrow> pyval" where
  "select_prop name = PDict [(U ''select'', PDict [(U ''name'', PStr name)])]"

definition is_score_item :: "pystr \<times> pyval \<Rightarrow> bool" where
  "is_score_item kv = (endswith (fst kv) (U ''_score'') \<and> is_int_or_float (snd kv))"

text \<open>The dict literal the function starts from.\<close>

definition initial_properties :: "(pystr \<times> pyval) list \<Rightarrow> (pystr \<times> pyval) list" where
  "initial_properties rating_data =
     [(U ''Evaluation Notes'',
         notes_prop (case map_of rating_data (U ''evaluation_notes'') of
                       None \<Rightarrow> PStr (U ''N/A'') | Some v \<Rightarrow> v)),
      (U ''Status'', select_prop (U ''Rated''))]"

text \<open>
  The body of the loop over \<^verbatim>\<open>rating_data.items()\<close>. Assigning to a key of a dict replaces
  the value in place or appends the key, as \<open>AList.update\<close> does.
\<close>

definition score_step ::
  "env \<Rightarrow> pystr \<times> pyval \<Rightarrow> (pystr \<times> pyval) list \<Rightarrow> (pystr \<times> pyval) list" where
  "score_step e kv props =
     (if is_score_item kv
      then AList.update (prop_name e (fst kv)) (number_prop (snd kv)) props
      else props)"

definition properties_to_update :: "env \<Rightarrow> (pystr \<times> pyval) list \<Rightarrow> (pystr \<times> pyval) list" where
  "properties_to_update e rating_data =
     fold (score_step e) rating_data (initial_properties rating_data)"

definition error_properties :: pyval where
  "error_properties = PDict [(U ''Status'', select_prop (U ''Error''))]"

text \<open>
  \<^verbatim>\<open>notion.pages.update(page_id=page_id, properties={"Status": {"select": {"name": "Error"}}})\<close>,
  the statement the source writes out at three places, none of them inside a \<^verbatim>\<open>try\<close> of its
  own.
\<close>

definition error_update :: "pyval \<Rightarrow> call" where
  "error_update page_id = PagesUpdate page_id error_properties"

definition pages_update_error :: "env \<Rightarrow> pyval \<Rightarrow> call list \<Rightarrow> (exn + unit) \<times> call list" where
  "pages_update_error e page_id tr =
     (case do_call e (error_update page_id) tr of
        (Inl ex, tr') \<Rightarrow> (Inl ex, tr')
      | (Inr r, tr') \<Rightarrow> (Inr (), tr'))"

text \<open>Only a dict has \<^verbatim>\<open>get\<close> and \<^verbatim>\<open>items\<close>; any other rating is an \<^verbatim>\<open>AttributeError\<close>.\<close>

definition update_notion_page ::
  "env \<Rightarrow> pyval \<Rightarrow> pyval \<Rightarrow> call list \<Rightarrow> (exn + unit) \<times> call list" where
  "update_notion_page e page_id rating_data tr =
     (case rating_data of
        PDict kvs \<Rightarrow>
          (case do_call e (PagesUpdate page_id (PDict (properties_to_update e kvs))) tr of
             (Inr r, tr') \<Rightarrow> (Inr (), tr')
           | (Inl ex, tr') \<Rightarrow> pages_update_error e page_id tr')
      | _ \<Rightarrow> (Inl AttributeError, tr))"

section \<open>\<^verbatim>\<open>main\<close>\<close>

definition prompt_path :: "pyval list" where
  "prompt_path =
     [PStr (U ''properties''), PStr (U ''Prompt''), PStr (U ''title''), PInt 0,
      PStr (U ''plain_text'')]"

definition response_path :: "pyval list" where
  "response_path =
     [PStr (U ''properties''), PStr (U ''AI Response''), PStr (U ''rich_text''), PInt 0,
      PStr (U ''plain_text'')]"

text \<open>The \<^verbatim>\<open>try\<close> block of the loop body.\<close>

definition try_page :: "env \<Rightarrow> pystr \<Rightarrow> pyval \<Rightarrow> pyval \<Rightarrow> call list \<Rightarrow> (exn + unit) \<times> call list" where
  "try_page e criteria page page_id tr =
     (case py_path page prompt_path of
        Inl ex \<Rightarrow> (Inl ex, tr)
      | Inr user_prompt \<Rightarrow>
          (case py_path page response_path of
             Inl ex \<Rightarrow> (Inl ex, tr)
           | Inr ai_response \<Rightarrow>
               (case get_rating_from_ai e criteria user_prompt ai_response tr of
                  (rating, tr') \<Rightarrow>
                    if py_truthy rating then update_notion_page e page_id rating tr'
                    else pages_update_error e page_id tr')))"

text \<open>
  The loop body: \<^verbatim>\<open>page["id"]\<close> is read outside the \<^verbatim>\<open>try\<close>, and the handler catches
  \<^verbatim>\<open>KeyError\<close> and \<^verbatim>\<open>IndexError\<close> only.
\<close>

definition process_page :: "env \<Rightarrow> pystr \<Rightarrow> pyval \<Rightarrow> call list \<Rightarrow> (exn + unit) \<times> call list" where
  "process_page e criteria page tr =
     (case py_getitem page (PStr (U ''id'')) of
        Inl ex \<Rightarrow> (Inl ex, tr)
      | Inr page_id \<Rightarrow>
          (case try_page e criteria page page_id tr of
             (Inr u, tr') \<Rightarrow> (Inr (), tr')
           | (Inl ex, tr') \<Rightarrow>
               if ex = KeyError \<or> ex = IndexError then pages_update_error e page_id tr'
               else (Inl ex, tr')))"

fun rate_pages :: "env \<Rightarrow> pystr \<Rightarrow> pyval list \<Rightarrow> call list \<Rightarrow> (exn + unit) \<times> call list" where
  "rate_pages e criteria [] tr = (Inr (), tr)"
| "rate_pages e criteria (page # rest) tr =
     (case process_page e criteria page tr of
        (Inl ex, tr') \<Rightarrow> (Inl ex, tr')
      | (Inr u, tr') \<Rightarrow> rate_pages e criteria rest tr')"

definition main :: "env \<Rightarrow> call list \<Rightarrow> (exn + unit) \<times> call list" where
  "main e tr =
     (case get_rating_criteria e tr of
        (criteria, tr1) \<Rightarrow>
          (case criteria of
             None \<Rightarrow> (Inr (), tr1)
           | Some c \<Rightarrow>
               if c = [] then (Inr (), tr1)
               else
                 (case get_unrated_responses e tr1 of
                    (responses_to_rate, tr2) \<Rightarrow>
                      if \<not> py_truthy responses_to_rate then (Inr (), tr2)
                      else
                        (case py_iter responses_to_rate of
                           Inl ex \<Rightarrow> (Inl ex, tr2)
                         | Inr pages \<Rightarrow> rate_pages e c pages tr2))))"

section \<open>Sample services and documents\<close>

text \<open>
  Concrete services for the worked examples: the \<open>n\<close>-th request of a run gets the \<open>n\<close>-th
  outcome of a script, and a request beyond the script fails.
\<close>

definition scripted :: "(exn + pyval) list \<Rightarrow> call list \<Rightarrow> exn + pyval" where
  "scripted outcomes history =
     (if history \<noteq> [] \<and> length history \<le> length outcomes
      then outcomes ! (length history - 1)
      else Inl (OtherError ''ConnectionError''))"

text \<open>
  A stand-in for \<^verbatim>\<open>json.loads\<close> in the examples. It decodes the four texts they use, as
  \<^verbatim>\<open>json.loads\<close> does (\<^verbatim>\<open>NaN\<close> is not JSON, and \<^verbatim>\<open>json.loads\<close> decodes it to the float), and
  rejects every other text.
\<close>

definition sample_loads :: "pystr \<Rightarrow> exn + pyval" where
  \<open>sample_loads s =
     (if s = U ''{}'' then Inr (PDict [])
      else if s = U ''null'' then Inr PNone
      else if s = U ''NaN'' then Inr (PFloat NaN)
      else if s = U ''{"clarity_score": 4, "evaluation_notes": "ok"}''
        then Inr (PDict [(U ''clarity_score'', PInt 4), (U ''evaluation_notes'', PStr (U ''ok''))])
      else Inl ValueError)\<close>

text \<open>
  Stand-ins for the interpreter's tables in the examples. The whitespace code points are
  those of the current interpreter. The case tables are right on ASCII and leave every other
  code point alone; the examples have ASCII keys only.
\<close>

definition sample_is_whitespace :: "nat \<Rightarrow> bool" where
  "sample_is_whitespace c =
     ((9 \<le> c \<and> c \<le> 13) \<or> (28 \<le> c \<and> c \<le> 32) \<or> c = 133 \<or> c = 160 \<or> c = 5760 \<or>
      (8192 \<le> c \<and> c \<le> 8202) \<or> c = 8232 \<or> c = 8233 \<or> c = 8239 \<or> c = 8287 \<or> c = 12288)"

definition sample_lower_at :: "pystr \<Rightarrow> nat \<Rightarrow> pystr" where
  "sample_lower_at s i = [ascii_lower (s ! i)]"

definition sample_to_title :: "nat \<Rightarrow> pystr" where
  "sample_to_title c = [ascii_upper c]"

definition sample_env :: "(exn + pyval) list \<Rightarrow> env" where
  "sample_env outcomes =
     \<lparr>respond = scripted outcomes, json_loads = sample_loads,
      is_whitespace = sample_is_whitespace, is_cased = ascii_letter,
      to_title = sample_to_title, lower_at = sample_lower_at,
      RESPONSES_DB_ID = U ''responses'', STANDARDS_PAGE_ID = U ''standards''\<rparr>"

definition text_run :: "string \<Rightarrow> pyval" where
  "text_run s = PDict [(U ''type'', PStr (U ''text'')), (U ''plain_text'', PStr (U s))]"

definition text_block :: "string \<Rightarrow> string list \<Rightarrow> pyval" where
  "text_block ty runs =
     PDict [(U ''object'', PStr (U ''block'')), (U ''type'', PStr (U ty)),
            (U ty, PDict [(U ''rich_text'', PList (map text_run runs))])]"

definition divider_block :: pyval where
  "divider_block =
     PDict [(U ''object'', PStr (U ''block'')), (U ''type'', PStr (U ''divider'')),
            (U ''divider'', PDict [])]"

definition results_response :: "pyval list \<Rightarrow> pyval" where
  "results_response items = PDict [(U ''object'', PStr (U ''list'')), (U ''results'', PList items)]"

definition sample_blocks :: "pyval list" where
  "sample_blocks =
     [text_block ''heading_1'' [''Clarity''], divider_block,
      text_block ''paragraph'' [''Answers are '', ''short.'']]"

definition sample_page :: "string \<Rightarrow> pyval" where
  "sample_page page_id =
     PDict [(U ''id'', PStr (U page_id)),
            (U ''properties'',
               PDict [(U ''Prompt'', PDict [(U ''title'', PList [text_run ''Hi''])]),
                      (U ''AI Response'', PDict [(U ''rich_text'', PList [text_run ''Hello''])]),
                      (U ''Status'', select_prop (U ''To be Rated''))])]"

definition page_without_response :: "string \<Rightarrow> pyval" where
  "page_without_response page_id =
     PDict [(U ''id'', PStr (U page_id)),
            (U ''properties'',
               PDict [(U ''Prompt'', PDict [(U ''title'', PList [text_run ''Hi''])]),
                      (U ''Status'', select_prop (U ''To be Rated''))])]"



definition completion :: "pyval \<Rightarrow> pyval" where
  "completion content =
     PDict [(U ''choices'', PList [PDict [(U ''message'', PDict [(U ''content'', content)])]])]"

text \<open>The criteria of \<open>sample_blocks\<close>, the chat request for a sample page, and a rating.\<close>

definition sample_criteria :: pystr where
  "sample_criteria = U ''Clarity'' @ [10] @ U ''Answers are '' @ [10] @ U ''short.''"

definition sample_chat :: call where
  "sample_chat = chat_request sample_criteria (PStr (U ''Hi'')) (PStr (U ''Hello''))"

definition sample_rating :: "(pystr \<times> pyval) list" where
  "sample_rating = [(U ''clarity_score'', PInt 4), (U ''evaluation_notes'', PStr (U ''ok''))]"

definition sample_rating_text :: pystr where
  \<open>sample_rating_text = U ''{"clarity_score": 4, "evaluation_notes": "ok"}''\<close>

section \<open>The text of a document, as the specification words it\<close>

text \<open>
  These functions follow the specification, not the source: the plain text of a text run,
  the text runs of a block, which are those of the rich-text collection under the block's
  own type key and none when the block has no such collection, and the text of a document,
  which is the plain text of all runs, in the order of the blocks and of the runs in a block,
  with a line feed between one and the next. The first two are \<open>None\<close> on a value that is not
  shaped like a run or a block. They state what \<^verbatim>\<open>get_rating_criteria\<close> is compared with.
\<close>

fun spec_run_text :: "pyval \<Rightarrow> pystr option" where
  "spec_run_text (PDict run) =
     (case map_of run (U ''plain_text'') of Some (PStr s) \<Rightarrow> Some s | _ \<Rightarrow> None)"
| "spec_run_text v = None"

fun spec_block_runs :: "pyval \<Rightarrow> pystr list option" where
  "spec_block_runs (PDict block) =
     (case map_of block (U ''type'') of
        Some (PStr ty) \<Rightarrow>
          (case map_of block ty of
             None \<Rightarrow> Some []
           | Some (PDict sub) \<Rightarrow>
               (case map_of sub (U ''rich_text'') of
                  None \<Rightarrow> Some []
                | Some (PList runs) \<Rightarrow> those (map spec_run_text runs)
                | _ \<Rightarrow> None)
           | _ \<Rightarrow> None)
      | _ \<Rightarrow> None)"
| "spec_block_runs v = None"

text \<open>The texts \<open>t1\<close>, ..., \<open>tn\<close> written one after the other with a line feed (10) between them.\<close>

fun spec_lines :: "pystr list \<Rightarrow> pystr" where
  "spec_lines [] = []"
| "spec_lines [t] = t"
| "spec_lines (t # u # ts) = t @ 10 # spec_lines (u # ts)"

definition spec_document_text :: "pyval list \<Rightarrow> pystr option" where
  "spec_document_text blocks =
     (case those (map spec_block_runs blocks) of
        None \<Rightarrow> None
      | Some runs \<Rightarrow> Some (spec_lines (concat runs)))"

section \<open>Facts about strings\<close>

lemma U_eq_iff [simp]: "U s = U t \<longleftrightarrow> s = t"
proof -
  have "inj (of_char :: char \<Rightarrow> nat)" by (rule inj_of_char)
  then show ?thesis by (simp add: U_def inj_map_eq_map)
qed

lemma U_append: "U (s @ t) = U s @ U t"
  by (simp add: U_def)

lemma U_ascii: "c \<in> set (U s) \<Longrightarrow> c < 256"
  by (auto simp: U_def)




section \<open>Facts about the writer\<close>




lemma map_of_score_step:
  "map_of (score_step e kv props) name =
     (if is_score_item kv \<and> prop_name e (fst kv) = name then Some (number_prop (snd kv))
      else map_of props name)"
  by (simp add: score_step_def update_conv')



lemma map_of_fold_score_step:
  "map_of (fold (score_step e) kvs props) name =
     (case filter (\<lambda>kv. is_score_item kv \<and> prop_name e (fst kv) = name) kvs of
        [] \<Rightarrow> map_of props name
      | kv # rest \<Rightarrow> Some (number_prop (snd (last (kv # rest)))))"
proof (induction kvs arbitrary: props)
  case Nil
  then show ?case by simp
next
  case (Cons kv kvs)
  show ?case
    by (cases "filter (\<lambda>kv. is_score_item kv \<and> prop_name e (fst kv) = name) kvs")
       (auto simp: Cons.IH map_of_score_step split: list.splits)
qed









lemma properties_score:
  assumes "(k, v) \<in> set rating" "is_score_item (k, v)"
  shows "map_of (properties_to_update e rating) (prop_name e k) =
           Some (number_prop (snd (last (filter
             (\<lambda>kv. is_score_item kv \<and> prop_name e (fst kv) = prop_name e k) rating))))"
proof -
  have "(k, v) \<in> set (filter (\<lambda>kv. is_score_item kv \<and> prop_name e (fst kv) = prop_name e k) rating)"
    using assms by simp
  then obtain kv rest where
    "filter (\<lambda>kv. is_score_item kv \<and> prop_name e (fst kv) = prop_name e k) rating = kv # rest"
    by (cases "filter (\<lambda>kv. is_score_item kv \<and> prop_name e (fst kv) = prop_name e k) rating") auto
  then show ?thesis
    by (simp add: properties_to_update_def map_of_fold_score_step)
qed

lemma properties_last_score:
  assumes "rating = pre @ (k, v) # post" and "is_score_item (k, v)"
    and "\<forall>kv \<in> set post. \<not> (is_score_item kv \<and> prop_name e (fst kv) = prop_name e k)"
  shows "map_of (properties_to_update e rating) (prop_name e k) = Some (number_prop v)"
proof -
  have "filter (\<lambda>kv. is_score_item kv \<and> prop_name e (fst kv) = prop_name e k) post = []"
    using assms(3) by (auto simp: filter_empty_conv)
  then have "filter (\<lambda>kv. is_score_item kv \<and> prop_name e (fst kv) = prop_name e k) rating =
      filter (\<lambda>kv. is_score_item kv \<and> prop_name e (fst kv) = prop_name e k) pre @ [(k, v)]"
    using assms(1,2) by simp
  then obtain kv rest where
    eq: "filter (\<lambda>kv. is_score_item kv \<and> prop_name e (fst kv) = prop_name e k) rating = kv # rest"
    and l: "last (kv # rest) = (k, v)"
    by (cases "filter (\<lambda>kv. is_score_item kv \<and> prop_name e (fst kv) = prop_name e k) pre") auto
  show ?thesis
    by (simp only: properties_to_update_def map_of_fold_score_step eq list.case l snd_conv)
qed





text \<open>
  Claim C10, as stated, fails when a later key of the rating gets the same name: the rating
  \<^verbatim>\<open>{"a_score": true, "A_score": 3}\<close> gives one column \<open>A Score\<close>, and it carries 3. The keys
  are ASCII, where the sample tables are those of the interpreter.
\<close>

theorem bool_score_counterexample:
  "suffix (U ''_score'') (U ''a_score'')
   \<and> title (sample_env []) (replace_char 95 32 (U ''a_score'')) = U ''A Score''
   \<and> title (sample_env []) (replace_char 95 32 (U ''A_score'')) = U ''A Score''
   \<and> properties_to_update (sample_env []) [(U ''a_score'', PBool True), (U ''A_score'', PInt 3)] =
       [(U ''Evaluation Notes'',
           PDict [(U ''rich_text'', PList [PDict [(U ''text'',
              PDict [(U ''content'', PStr (U ''N/A''))])]])]),
        (U ''Status'', PDict [(U ''select'', PDict [(U ''name'', PStr (U ''Rated''))])]),
        (U ''A Score'', PDict [(U ''number'', PInt 3)])]"
  by code_simp

text \<open>
  Claim C10, amended. A boolean passes the numeric check. A key ending in \<open>_score\<close> whose value
  is a boolean is written as a number column under the name that
  \<^verbatim>\<open>replace('_', ' ').title()\<close> gives it, and the column carries the value of the last key of
  the rating that is written as a score under that name: the boolean when no later key of the
  rating is written as a score under the same name, that later value otherwise. This holds
  for every key and whatever the tables of the interpreter are.
\<close>

theorem bool_score_is_number:
  "is_int_or_float (PBool b)
   \<and> ((k, PBool b) \<in> set rating \<and> suffix (U ''_score'') k \<longrightarrow>
        map_of (properties_to_update e rating) (title e (replace_char 95 32 k)) =
          Some (PDict [(U ''number'', snd (last (filter
             (\<lambda>kv. suffix (U ''_score'') (fst kv) \<and> is_int_or_float (snd kv) \<and>
                   title e (replace_char 95 32 (fst kv)) = title e (replace_char 95 32 k))
             rating)))]))
   \<and> (suffix (U ''_score'') k \<and>
      (\<forall>kv \<in> set post.
         \<not> (suffix (U ''_score'') (fst kv) \<and> is_int_or_float (snd kv) \<and>
            title e (replace_char 95 32 (fst kv)) = title e (replace_char 95 32 k))) \<longrightarrow>
      map_of (properties_to_update e (pre @ (k, PBool b) # post)) (title e (replace_char 95 32 k)) =
        Some (PDict [(U ''number'', PBool b)]))"
proof (intro conjI impI)
  show "is_int_or_float (PBool b)" by simp
next
  assume h: "(k, PBool b) \<in> set rating \<and> suffix (U ''_score'') k"
  then have "is_score_item (k, PBool b)" by (simp add: is_score_item_def endswith_def)
  with h show "map_of (properties_to_update e rating) (title e (replace_char 95 32 k)) =
          Some (PDict [(U ''number'', snd (last (filter
             (\<lambda>kv. suffix (U ''_score'') (fst kv) \<and> is_int_or_float (snd kv) \<and>
                   title e (replace_char 95 32 (fst kv)) = title e (replace_char 95 32 k))
             rating)))])"
    using properties_score [of k "PBool b" rating e]
    by (simp add: prop_name_def is_score_item_def endswith_def number_prop_def)
next
  assume h: "suffix (U ''_score'') k \<and>
      (\<forall>kv \<in> set post.
         \<not> (suffix (U ''_score'') (fst kv) \<and> is_int_or_float (snd kv) \<and>
            title e (replace_char 95 32 (fst kv)) = title e (replace_char 95 32 k)))"
  then have s: "is_score_item (k, PBool b)" by (simp add: is_score_item_def endswith_def)
  from h have n: "\<forall>kv \<in> set post. \<not> (is_score_item kv \<and> prop_name e (fst kv) = prop_name e k)"
    by (simp add: is_score_item_def endswith_def prop_name_def)
  from properties_last_score [OF refl s n, of pre]
  show "map_of (properties_to_update e (pre @ (k, PBool b) # post)) (title e (replace_char 95 32 k)) =
        Some (PDict [(U ''number'', PBool b)])"
    by (simp add: prop_name_def number_prop_def)
qed

theorem bool_score_is_number_witness:
  "suffix (U ''_score'') (U ''done_score'')
   \<and> title (sample_env []) (replace_char 95 32 (U ''done_score'')) = U ''Done Score''
   \<and> map_of (properties_to_update (sample_env [])
        [(U ''clarity_score'', PInt 4), (U ''done_score'', PBool True),
         (U ''evaluation_notes'', PStr (U ''ok''))])
        (U ''Done Score'') = Some (PDict [(U ''number'', PBool True)])
   \<and> map_of (properties_to_update (sample_env [])
        [(U ''a_score'', PBool True), (U ''A_score'', PInt 3)])
        (U ''A Score'') = Some (PDict [(U ''number'', PInt 3)])"
proof -
  let ?e = "sample_env []"
  have n: "title ?e (replace_char 95 32 (U ''done_score'')) = U ''Done Score''" by code_simp
  have h: "suffix (U ''_score'') (U ''done_score'') \<and>
      (\<forall>kv \<in> set [(U ''evaluation_notes'', PStr (U ''ok''))].
         \<not> (suffix (U ''_score'') (fst kv) \<and> is_int_or_float (snd kv) \<and>
            title ?e (replace_char 95 32 (fst kv)) =
              title ?e (replace_char 95 32 (U ''done_score''))))"
    by code_simp
  note a = bool_score_is_number [where b = True and k = "U ''done_score''" and e = ?e
      and post = "[(U ''evaluation_notes'', PStr (U ''ok''))]"
      and pre = "[(U ''clarity_score'', PInt 4)]",
      THEN conjunct2, THEN conjunct2, rule_format, OF h]
  let ?r = "[(U ''a_score'', PBool True), (U ''A_score'', PInt 3)]"
  have g: "(U ''a_score'', PBool True) \<in> set ?r \<and> suffix (U ''_score'') (U ''a_score'')"
    by code_simp
  have m: "title ?e (replace_char 95 32 (U ''a_score'')) = U ''A Score''" by code_simp
  have f: "snd (last (filter
             (\<lambda>kv. suffix (U ''_score'') (fst kv) \<and> is_int_or_float (snd kv) \<and>
                   title ?e (replace_char 95 32 (fst kv)) = U ''A Score'') ?r)) = PInt 3"
    by code_simp
  note b = bool_score_is_number [where b = True and k = "U ''a_score''" and e = ?e
      and rating = ?r, THEN conjunct2, THEN conjunct1, rule_format, OF g]
  from h a b show ?thesis unfolding n m f by simp
qed

section \<open>Facts about the reader of records and the driver\<close>

lemma get_unrated_responses_trace:
  "snd (get_unrated_responses e tr) = tr @ [DatabasesQuery (RESPONSES_DB_ID e) status_filter]"
  by (simp add: get_unrated_responses_def do_call_def split: sum.splits)

lemma get_rating_criteria_trace:
  "snd (get_rating_criteria e tr) = tr @ [BlocksChildrenList (STANDARDS_PAGE_ID e)]"
  by (simp add: get_rating_criteria_def do_call_def split: sum.splits)

lemma results_of_response_list:
  "map_of response (U ''results'') = Some (PList records) \<Longrightarrow>
     results_of_response (PDict response) = Inr (PList records)"
  by (simp add: results_of_response_def and_then_def)

text \<open>
  Claim C6. \<^verbatim>\<open>get_unrated_responses\<close> issues exactly one request, the query of the responses
  database with the filter "select field \<open>Status\<close> equals \<open>To be Rated\<close>". When the query returns
  a dict whose \<open>results\<close> is a list, that list is returned as it is; when the query raises, the
  empty list is returned. The function has no exception among its outcomes: every path of the
  source ends in a \<^verbatim>\<open>return\<close>.
\<close>

theorem get_unrated_responses_query:
  "snd (get_unrated_responses e tr) = tr @ [DatabasesQuery (RESPONSES_DB_ID e) status_filter]
   \<and> status_filter =
       PDict [(U ''property'', PStr (U ''Status'')),
              (U ''select'', PDict [(U ''equals'', PStr (U ''To be Rated''))])]
   \<and> (\<forall>response records.
         respond e (tr @ [DatabasesQuery (RESPONSES_DB_ID e) status_filter]) = Inr (PDict response) \<and>
         map_of response (U ''results'') = Some (PList records) \<longrightarrow>
         fst (get_unrated_responses e tr) = PList records)
   \<and> (\<forall>ex.
         respond e (tr @ [DatabasesQuery (RESPONSES_DB_ID e) status_filter]) = Inl ex \<longrightarrow>
         fst (get_unrated_responses e tr) = PList [])"
proof (intro conjI allI impI)
  show "snd (get_unrated_responses e tr) = tr @ [DatabasesQuery (RESPONSES_DB_ID e) status_filter]"
    by (rule get_unrated_responses_trace)
next
  show "status_filter =
       PDict [(U ''property'', PStr (U ''Status'')),
              (U ''select'', PDict [(U ''equals'', PStr (U ''To be Rated''))])]"
    by (simp add: status_filter_def)
next
  fix response records
  assume "respond e (tr @ [DatabasesQuery (RESPONSES_DB_ID e) status_filter]) = Inr (PDict response) \<and>
         map_of response (U ''results'') = Some (PList records)"
  then show "fst (get_unrated_responses e tr) = PList records"
    by (simp add: get_unrated_responses_def do_call_def results_of_response_list)
next
  fix ex
  assume "respond e (tr @ [DatabasesQuery (RESPONSES_DB_ID e) status_filter]) = Inl ex"
  then show "fst (get_unrated_responses e tr) = PList []"
    by (simp add: get_unrated_responses_def do_call_def)
qed

lemma scripted_first: "scripted (r # rs) [c] = r"
  by (simp add: scripted_def)

lemma scripted_second: "scripted (r1 # r2 # rs) [c1, c2] = r2"
  by (simp add: scripted_def)

lemma scripted_third: "scripted (r1 # r2 # r3 # rs) [c1, c2, c3] = r3"
  by (simp add: scripted_def)

lemma scripted_fourth: "scripted (r1 # r2 # r3 # r4 # rs) [c1, c2, c3, c4] = r4"
  by (simp add: scripted_def)

theorem get_unrated_responses_query_witness:
  "get_unrated_responses
      (sample_env [Inr (results_response [sample_page ''p1'', page_without_response ''p2''])]) [] =
     (PList [sample_page ''p1'', page_without_response ''p2''],
      [DatabasesQuery (U ''responses'') status_filter])
   \<and> get_unrated_responses (sample_env [Inl (OtherError ''HTTPResponseError'')]) [] =
     (PList [], [DatabasesQuery (U ''responses'') status_filter])"
proof -
  let ?rs = "[sample_page ''p1'', page_without_response ''p2'']"
  let ?e1 = "sample_env [Inr (results_response ?rs)]"
  let ?e2 = "sample_env [Inl (OtherError ''HTTPResponseError'')]"
  have h1: "respond ?e1 ([] @ [DatabasesQuery (RESPONSES_DB_ID ?e1) status_filter]) =
              Inr (PDict [(U ''object'', PStr (U ''list'')), (U ''results'', PList ?rs)])
            \<and> map_of [(U ''object'', PStr (U ''list'')), (U ''results'', PList ?rs)] (U ''results'') = Some (PList ?rs)"
    by (simp add: sample_env_def scripted_first results_response_def)
  have h2: "respond ?e2 ([] @ [DatabasesQuery (RESPONSES_DB_ID ?e2) status_filter]) =
              Inl (OtherError ''HTTPResponseError'')"
    by (simp add: sample_env_def scripted_first)
  note t1 = get_unrated_responses_query [of ?e1 "[]"]
  note t2 = get_unrated_responses_query [of ?e2 "[]"]
  have a: "fst (get_unrated_responses ?e1 []) = PList ?rs"
    using t1 [THEN conjunct2, THEN conjunct2, THEN conjunct1, rule_format, OF h1] .
  have b: "fst (get_unrated_responses ?e2 []) = PList []"
    using t2 [THEN conjunct2, THEN conjunct2, THEN conjunct2, rule_format, OF h2] .
  have c: "snd (get_unrated_responses ?e1 []) = [DatabasesQuery (U ''responses'') status_filter]"
    using t1 [THEN conjunct1] by (simp add: sample_env_def)
  have d: "snd (get_unrated_responses ?e2 []) = [DatabasesQuery (U ''responses'') status_filter]"
    using t2 [THEN conjunct1] by (simp add: sample_env_def)
  from a b c d show ?thesis by (simp add: prod_eq_iff)
qed

lemma criteria_of_response_nonblank:
  "criteria_of_response e response = Inr (Some c) \<Longrightarrow> strip e c \<noteq> []"
  by (auto simp: criteria_of_response_def and_then_def split: sum.splits if_splits)

lemma get_rating_criteria_nonblank:
  "fst (get_rating_criteria e tr) = Some c \<Longrightarrow> strip e c \<noteq> []"
  by (auto simp: get_rating_criteria_def do_call_def criteria_of_response_nonblank
      split: sum.splits)

lemma strip_Nil: "strip e [] = []"
  by (simp add: strip_def)

text \<open>
  Claim C7. When \<^verbatim>\<open>get_rating_criteria\<close> returns \<^verbatim>\<open>None\<close>, \<^verbatim>\<open>main\<close> returns normally after the one
  request that read the blocks. When the criteria are there and \<^verbatim>\<open>get_unrated_responses\<close>
  returns the empty list, \<^verbatim>\<open>main\<close> returns normally after the two reads. In both runs no chat
  completion is requested and no page is updated.
\<close>

theorem main_exits_without_work:
  "(fst (get_rating_criteria e tr) = None \<longrightarrow>
      main e tr = (Inr (), tr @ [BlocksChildrenList (STANDARDS_PAGE_ID e)]))
   \<and> (\<forall>c. fst (get_rating_criteria e tr) = Some c \<and>
          fst (get_unrated_responses e (tr @ [BlocksChildrenList (STANDARDS_PAGE_ID e)])) = PList [] \<longrightarrow>
          main e tr =
            (Inr (), tr @ [BlocksChildrenList (STANDARDS_PAGE_ID e),
                           DatabasesQuery (RESPONSES_DB_ID e) status_filter]))"
proof (intro conjI allI impI)
  assume "fst (get_rating_criteria e tr) = None"
  then show "main e tr = (Inr (), tr @ [BlocksChildrenList (STANDARDS_PAGE_ID e)])"
    using get_rating_criteria_trace [of e tr]
    by (cases "get_rating_criteria e tr") (simp add: main_def)
next
  fix c
  let ?tr1 = "tr @ [BlocksChildrenList (STANDARDS_PAGE_ID e)]"
  assume h: "fst (get_rating_criteria e tr) = Some c \<and> fst (get_unrated_responses e ?tr1) = PList []"
  then have 1: "get_rating_criteria e tr = (Some c, ?tr1)"
    using get_rating_criteria_trace [of e tr] by (simp add: prod_eq_iff)
  from h have 2: "get_unrated_responses e ?tr1 =
      (PList [], ?tr1 @ [DatabasesQuery (RESPONSES_DB_ID e) status_filter])"
    using get_unrated_responses_trace [of e ?tr1] by (simp add: prod_eq_iff)
  from h have 3: "c \<noteq> []"
    using get_rating_criteria_nonblank [of e tr c] strip_Nil by auto
  show "main e tr =
            (Inr (), tr @ [BlocksChildrenList (STANDARDS_PAGE_ID e),
                           DatabasesQuery (RESPONSES_DB_ID e) status_filter])"
    by (simp add: main_def 1 2 3)
qed

theorem main_exits_without_work_witness:
  "main (sample_env [Inr (results_response [])]) [] =
     (Inr (), [BlocksChildrenList (U ''standards'')])
   \<and> main (sample_env [Inr (results_response sample_blocks), Inr (results_response [])]) [] =
     (Inr (), [BlocksChildrenList (U ''standards''), DatabasesQuery (U ''responses'') status_filter])"
proof -
  let ?e1 = "sample_env [Inr (results_response [])]"
  let ?e2 = "sample_env [Inr (results_response sample_blocks), Inr (results_response [])]"
  have h1: "fst (get_rating_criteria ?e1 []) = None"
    by code_simp
  have h2: "fst (get_rating_criteria ?e2 []) =
              Some ((U ''Clarity'') @ newline @ (U ''Answers are '') @ newline @ (U ''short.''))
            \<and> fst (get_unrated_responses ?e2 ([] @ [BlocksChildrenList (STANDARDS_PAGE_ID ?e2)])) =
              PList []"
    by code_simp
  from main_exits_without_work [of ?e1 "[]", THEN conjunct1, rule_format, OF h1]
       main_exits_without_work [of ?e2 "[]", THEN conjunct2, rule_format, OF h2]
  show ?thesis by (simp add: sample_env_def)
qed

section \<open>Facts about one record\<close>

lemma get_rating_from_ai_trace:
  "snd (get_rating_from_ai e c up ar tr) = tr @ [chat_request c up ar]"
  by (simp add: get_rating_from_ai_def do_call_def split: sum.splits)

lemma pages_update_error_eq:
  "pages_update_error e pid tr =
     ((case respond e (tr @ [error_update pid]) of Inl ex \<Rightarrow> Inl ex | Inr r \<Rightarrow> Inr ()),
      tr @ [error_update pid])"
  by (simp add: pages_update_error_def do_call_def split: sum.splits)

lemma process_page_extraction_error:
  assumes "py_getitem page (PStr (U ''id'')) = Inr pid"
    and "ex = KeyError \<or> ex = IndexError"
    and "py_path page prompt_path = Inl ex \<or>
         (\<exists>up. py_path page prompt_path = Inr up) \<and> py_path page response_path = Inl ex"
  shows "process_page e c page tr = pages_update_error e pid tr"
  using assms by (auto simp: process_page_def try_page_def)

lemma process_page_falsy:
  assumes "py_getitem page (PStr (U ''id'')) = Inr pid"
    and "py_path page prompt_path = Inr up"
    and "py_path page response_path = Inr ar"
    and "\<not> py_truthy (fst (get_rating_from_ai e c up ar tr))"
  shows "process_page e c page tr =
     (case pages_update_error e pid (tr @ [chat_request c up ar]) of
        (Inl ex, tr') \<Rightarrow>
          if ex = KeyError \<or> ex = IndexError then pages_update_error e pid tr' else (Inl ex, tr')
      | (Inr u, tr') \<Rightarrow> (Inr (), tr'))"
proof -
  obtain rating where r: "get_rating_from_ai e c up ar tr = (rating, tr @ [chat_request c up ar])"
    using get_rating_from_ai_trace [of e c up ar tr]
    by (cases "get_rating_from_ai e c up ar tr") simp
  with assms(4) have "\<not> py_truthy rating" by simp
  with assms(1-3) r show ?thesis
    by (simp add: process_page_def try_page_def split: prod.splits sum.splits)
qed

lemma process_page_falsy_trace:
  assumes "py_getitem page (PStr (U ''id'')) = Inr pid"
    and "py_path page prompt_path = Inr up"
    and "py_path page response_path = Inr ar"
    and "\<not> py_truthy (fst (get_rating_from_ai e c up ar tr))"
  shows "snd (process_page e c page tr) =
     tr @ chat_request c up ar # error_update pid #
       (if respond e (tr @ [chat_request c up ar, error_update pid]) = Inl KeyError \<or>
           respond e (tr @ [chat_request c up ar, error_update pid]) = Inl IndexError
        then [error_update pid] else [])"
  unfolding process_page_falsy [OF assms]
  by (auto simp: pages_update_error_eq split: sum.splits)

lemma process_page_falsy_ok:
  assumes "py_getitem page (PStr (U ''id'')) = Inr pid"
    and "py_path page prompt_path = Inr up"
    and "py_path page response_path = Inr ar"
    and "\<not> py_truthy (fst (get_rating_from_ai e c up ar tr))"
    and "respond e (tr @ [chat_request c up ar, error_update pid]) = Inr r"
  shows "process_page e c page tr = (Inr (), tr @ [chat_request c up ar, error_update pid])"
  unfolding process_page_falsy [OF assms(1-4)]
  using assms(5) by (simp add: pages_update_error_eq)

lemma process_page_falsy_raises:
  assumes "py_getitem page (PStr (U ''id'')) = Inr pid"
    and "py_path page prompt_path = Inr up"
    and "py_path page response_path = Inr ar"
    and "\<not> py_truthy (fst (get_rating_from_ai e c up ar tr))"
    and "respond e (tr @ [chat_request c up ar, error_update pid]) = Inl ex"
    and "ex \<noteq> KeyError" "ex \<noteq> IndexError"
  shows "process_page e c page tr = (Inl ex, tr @ [chat_request c up ar, error_update pid])"
  unfolding process_page_falsy [OF assms(1-4)]
  using assms(5-7) by (simp add: pages_update_error_eq)

lemma get_rating_from_ai_service_error:
  "respond e (tr @ [chat_request c up ar]) = Inl ex \<Longrightarrow>
     get_rating_from_ai e c up ar tr = (PNone, tr @ [chat_request c up ar])"
  by (simp add: get_rating_from_ai_def do_call_def)

lemma get_rating_from_ai_decode_error:
  "respond e (tr @ [chat_request c up ar]) = Inr response \<Longrightarrow>
   rating_of_response e response = Inl ex \<Longrightarrow>
     get_rating_from_ai e c up ar tr = (PNone, tr @ [chat_request c up ar])"
  by (simp add: get_rating_from_ai_def do_call_def)

lemma get_rating_from_ai_decoded:
  "respond e (tr @ [chat_request c up ar]) = Inr response \<Longrightarrow>
   rating_of_response e response = Inr rating \<Longrightarrow>
     get_rating_from_ai e c up ar tr = (rating, tr @ [chat_request c up ar])"
  by (simp add: get_rating_from_ai_def do_call_def)

lemma rating_of_response_text:
  "message_content response = Inr (PStr text) \<Longrightarrow>
     rating_of_response e response = json_loads e text"
  by (simp add: rating_of_response_def and_then_def)

lemma update_notion_page_both_fail:
  assumes "respond e (tr @ [PagesUpdate pid (PDict (properties_to_update e rating))]) = Inl ex1"
    and "respond e (tr @ [PagesUpdate pid (PDict (properties_to_update e rating)), error_update pid])
           = Inl ex2"
  shows "update_notion_page e pid (PDict rating) tr =
     (Inl ex2, tr @ [PagesUpdate pid (PDict (properties_to_update e rating)), error_update pid])"
  using assms by (simp add: update_notion_page_def do_call_def pages_update_error_eq)

lemma process_page_truthy:
  assumes "py_getitem page (PStr (U ''id'')) = Inr pid"
    and "py_path page prompt_path = Inr up"
    and "py_path page response_path = Inr ar"
    and "get_rating_from_ai e c up ar tr = (rating, tr')"
    and "py_truthy rating"
  shows "process_page e c page tr =
     (case update_notion_page e pid rating tr' of
        (Inl ex, tr'') \<Rightarrow>
          if ex = KeyError \<or> ex = IndexError then pages_update_error e pid tr'' else (Inl ex, tr'')
      | (Inr u, tr'') \<Rightarrow> (Inr (), tr''))"
  using assms by (simp add: process_page_def try_page_def split: prod.splits sum.splits)

lemma rate_pages_raises:
  "process_page e c page tr = (Inl ex, tr') \<Longrightarrow> rate_pages e c (page # rest) tr = (Inl ex, tr')"
  by simp


lemma rate_pages_append:
  "rate_pages e c (xs @ ys) tr =
     (case rate_pages e c xs tr of
        (Inl ex, tr') \<Rightarrow> (Inl ex, tr')
      | (Inr u, tr') \<Rightarrow> rate_pages e c ys tr')"
  by (induction xs arbitrary: tr) (auto split: prod.splits sum.splits)

lemma main_record:
  assumes "get_rating_criteria e tr = (Some c, tr1)"
    and "get_unrated_responses e tr1 = (PList (pre @ page # rest), tr2)"
    and "rate_pages e c pre tr2 = (Inr (), tr')"
  shows "main e tr =
     (case process_page e c page tr' of
        (Inl ex, tr'') \<Rightarrow> (Inl ex, tr'')
      | (Inr u, tr'') \<Rightarrow> rate_pages e c rest tr'')"
proof -
  from assms(1) have "c \<noteq> []"
    using get_rating_criteria_nonblank [of e tr c] strip_Nil by auto
  then have "main e tr = rate_pages e c (pre @ page # rest) tr2"
    using assms(1,2) by (simp add: main_def)
  then show ?thesis
    by (simp add: rate_pages_append assms(3))
qed

lemma error_update_payload:
  "error_update pid =
     PagesUpdate pid
       (PDict [(U ''Status'', PDict [(U ''select'', PDict [(U ''name'', PStr (U ''Error''))])])])"
  by (simp add: error_update_def error_properties_def select_prop_def)


lemma process_page_not_dict:
  assumes "py_getitem page (PStr (U ''id'')) = Inr pid"
    and "py_path page prompt_path = Inr up"
    and "py_path page response_path = Inr ar"
    and "get_rating_from_ai e c up ar tr = (rating, tr')"
    and "py_truthy rating" and "\<forall>d. rating \<noteq> PDict d"
  shows "process_page e c page tr = (Inl AttributeError, tr')"
proof -
  from assms(6) have "update_notion_page e pid rating tr' = (Inl AttributeError, tr')"
    by (cases rating) (simp_all add: update_notion_page_def)
  then show ?thesis
    unfolding process_page_truthy [OF assms(1-5)] by simp
qed




text \<open>
  Claim C4, as stated, fails on the text \<^verbatim>\<open>NaN\<close>, which is not valid JSON and which
  \<^verbatim>\<open>json.loads\<close> decodes to a float. \<^verbatim>\<open>get_rating_from_ai\<close> returns that float, not \<^verbatim>\<open>None\<close>; it
  is true in a condition, so the driver calls the writer, which raises \<^verbatim>\<open>AttributeError\<close> on
  a rating that is not a dict; the handler does not catch it, \<^verbatim>\<open>main\<close> ends with it, and no
  request has set the \<open>Status\<close> of the record.
\<close>

theorem nan_rating_counterexample:
  "json_loads (sample_env []) (U ''NaN'') = Inr (PFloat NaN)
   \<and> py_truthy (PFloat NaN)
   \<and> get_rating_from_ai
        (sample_env [Inr (results_response sample_blocks),
                     Inr (results_response [sample_page ''p1'', sample_page ''p2'']),
                     Inr (completion (PStr (U ''NaN'')))])
        sample_criteria (PStr (U ''Hi'')) (PStr (U ''Hello''))
        [BlocksChildrenList (U ''standards''), DatabasesQuery (U ''responses'') status_filter] =
       (PFloat NaN,
        [BlocksChildrenList (U ''standards''), DatabasesQuery (U ''responses'') status_filter,
         sample_chat])
   \<and> main (sample_env [Inr (results_response sample_blocks),
                        Inr (results_response [sample_page ''p1'', sample_page ''p2'']),
                        Inr (completion (PStr (U ''NaN'')))]) [] =
       (Inl AttributeError,
        [BlocksChildrenList (U ''standards''), DatabasesQuery (U ''responses'') status_filter,
         sample_chat])"
  by code_simp

text \<open>
  Claim C4, amended. \<^verbatim>\<open>get_rating_from_ai\<close> returns \<^verbatim>\<open>None\<close> after its one request when the
  request raises, when the response has no message content, when the content is not a string,
  and when \<^verbatim>\<open>json.loads\<close> raises on the content; it has no exception among its outcomes. For a
  record whose id, prompt and response can be read and whose rating is \<^verbatim>\<open>None\<close>, the requests
  of the record are the chat request and the update that sets the select \<open>Status\<close> to \<open>Error\<close>
  (issued once more by the handler if it raises \<^verbatim>\<open>KeyError\<close> or \<^verbatim>\<open>IndexError\<close>), and never the
  writer's update. This holds for the loop body, and for \<^verbatim>\<open>main\<close> at every position of the
  fetched list: when the records before it were processed without an exception and the update
  returns, \<^verbatim>\<open>main\<close> goes on with the records after it. A text that \<^verbatim>\<open>json.loads\<close> accepts is
  decoded, valid JSON or not: when the value is true in a condition and is not a dict,
  \<^verbatim>\<open>get_rating_from_ai\<close> returns it and \<^verbatim>\<open>main\<close> ends with the writer's \<^verbatim>\<open>AttributeError\<close>
  after the chat request.
\<close>

theorem rating_failure_marks_error:
  "(\<forall>ex. respond e (tr' @ [chat_request c up ar]) = Inl ex \<longrightarrow>
      get_rating_from_ai e c up ar tr' = (PNone, tr' @ [chat_request c up ar]))
   \<and> (\<forall>response content ex.
        respond e (tr' @ [chat_request c up ar]) = Inr response \<and>
        message_content response = Inr (PStr content) \<and> json_loads e content = Inl ex \<longrightarrow>
        get_rating_from_ai e c up ar tr' = (PNone, tr' @ [chat_request c up ar]))
   \<and> (\<forall>response v.
        respond e (tr' @ [chat_request c up ar]) = Inr response \<and>
        message_content response = Inr v \<and> (\<forall>s. v \<noteq> PStr s) \<longrightarrow>
        get_rating_from_ai e c up ar tr' = (PNone, tr' @ [chat_request c up ar]))
   \<and> (\<forall>response ex.
        respond e (tr' @ [chat_request c up ar]) = Inr response \<and>
        message_content response = Inl ex \<longrightarrow>
        get_rating_from_ai e c up ar tr' = (PNone, tr' @ [chat_request c up ar]))
   \<and> (\<forall>pid. py_getitem page (PStr (U ''id'')) = Inr pid \<and> py_path page prompt_path = Inr up \<and>
        py_path page response_path = Inr ar \<and> fst (get_rating_from_ai e c up ar tr') = PNone \<longrightarrow>
        snd (process_page e c page tr') =
          tr' @ chat_request c up ar # error_update pid #
            (if respond e (tr' @ [chat_request c up ar, error_update pid]) = Inl KeyError \<or>
                respond e (tr' @ [chat_request c up ar, error_update pid]) = Inl IndexError
             then [error_update pid] else [])
        \<and> (\<forall>r. respond e (tr' @ [chat_request c up ar, error_update pid]) = Inr r \<longrightarrow>
              process_page e c page tr' =
                (Inr (), tr' @ [chat_request c up ar, error_update pid])))
   \<and> (\<forall>pid tr1 tr2 pre rest r.
        get_rating_criteria e tr = (Some c, tr1) \<and>
        get_unrated_responses e tr1 = (PList (pre @ page # rest), tr2) \<and>
        rate_pages e c pre tr2 = (Inr (), tr') \<and>
        py_getitem page (PStr (U ''id'')) = Inr pid \<and> py_path page prompt_path = Inr up \<and>
        py_path page response_path = Inr ar \<and> fst (get_rating_from_ai e c up ar tr') = PNone \<and>
        respond e (tr' @ [chat_request c up ar, error_update pid]) = Inr r \<longrightarrow>
        main e tr = rate_pages e c rest (tr' @ [chat_request c up ar, error_update pid]))
   \<and> (\<forall>pid. error_update pid =
        PagesUpdate pid
          (PDict [(U ''Status'', PDict [(U ''select'', PDict [(U ''name'', PStr (U ''Error''))])])]))
   \<and> (\<forall>pid tr1 tr2 pre rest response content rating.
        get_rating_criteria e tr = (Some c, tr1) \<and>
        get_unrated_responses e tr1 = (PList (pre @ page # rest), tr2) \<and>
        rate_pages e c pre tr2 = (Inr (), tr') \<and>
        py_getitem page (PStr (U ''id'')) = Inr pid \<and> py_path page prompt_path = Inr up \<and>
        py_path page response_path = Inr ar \<and>
        respond e (tr' @ [chat_request c up ar]) = Inr response \<and>
        message_content response = Inr (PStr content) \<and> json_loads e content = Inr rating \<and>
        py_truthy rating \<and> (\<forall>d. rating \<noteq> PDict d) \<longrightarrow>
        get_rating_from_ai e c up ar tr' = (rating, tr' @ [chat_request c up ar])
        \<and> main e tr = (Inl AttributeError, tr' @ [chat_request c up ar]))"
proof (intro conjI allI impI)
  fix ex
  assume "respond e (tr' @ [chat_request c up ar]) = Inl ex"
  then show "get_rating_from_ai e c up ar tr' = (PNone, tr' @ [chat_request c up ar])"
    by (rule get_rating_from_ai_service_error)
next
  fix response content ex
  assume "respond e (tr' @ [chat_request c up ar]) = Inr response \<and>
        message_content response = Inr (PStr content) \<and> json_loads e content = Inl ex"
  then show "get_rating_from_ai e c up ar tr' = (PNone, tr' @ [chat_request c up ar])"
    by (simp add: get_rating_from_ai_decode_error rating_of_response_text)
next
  fix response v
  assume h: "respond e (tr' @ [chat_request c up ar]) = Inr response \<and>
        message_content response = Inr v \<and> (\<forall>s. v \<noteq> PStr s)"
  then have "rating_of_response e response = Inl TypeError"
    by (cases v) (simp_all add: rating_of_response_def and_then_def)
  with h show "get_rating_from_ai e c up ar tr' = (PNone, tr' @ [chat_request c up ar])"
    by (simp add: get_rating_from_ai_decode_error)
next
  fix response ex
  assume h: "respond e (tr' @ [chat_request c up ar]) = Inr response \<and>
        message_content response = Inl ex"
  then have "rating_of_response e response = Inl ex"
    by (simp add: rating_of_response_def and_then_def)
  with h show "get_rating_from_ai e c up ar tr' = (PNone, tr' @ [chat_request c up ar])"
    by (simp add: get_rating_from_ai_decode_error)
next
  fix pid
  assume h: "py_getitem page (PStr (U ''id'')) = Inr pid \<and> py_path page prompt_path = Inr up \<and>
        py_path page response_path = Inr ar \<and> fst (get_rating_from_ai e c up ar tr') = PNone"
  then have a: "py_getitem page (PStr (U ''id'')) = Inr pid"
    and b: "py_path page prompt_path = Inr up"
    and c: "py_path page response_path = Inr ar"
    and d: "\<not> py_truthy (fst (get_rating_from_ai e c up ar tr'))"
    by simp_all
  show "snd (process_page e c page tr') =
          tr' @ chat_request c up ar # error_update pid #
            (if respond e (tr' @ [chat_request c up ar, error_update pid]) = Inl KeyError \<or>
                respond e (tr' @ [chat_request c up ar, error_update pid]) = Inl IndexError
             then [error_update pid] else [])"
    by (rule process_page_falsy_trace [OF a b c d])
next
  fix pid r
  assume h: "py_getitem page (PStr (U ''id'')) = Inr pid \<and> py_path page prompt_path = Inr up \<and>
        py_path page response_path = Inr ar \<and> fst (get_rating_from_ai e c up ar tr') = PNone"
    and r: "respond e (tr' @ [chat_request c up ar, error_update pid]) = Inr r"
  from h have a: "py_getitem page (PStr (U ''id'')) = Inr pid"
    and b: "py_path page prompt_path = Inr up"
    and c: "py_path page response_path = Inr ar"
    and d: "\<not> py_truthy (fst (get_rating_from_ai e c up ar tr'))"
    by simp_all
  show "process_page e c page tr' = (Inr (), tr' @ [chat_request c up ar, error_update pid])"
    by (rule process_page_falsy_ok [OF a b c d r])
next
  fix pid tr1 tr2 pre rest r
  assume h: "get_rating_criteria e tr = (Some c, tr1) \<and>
        get_unrated_responses e tr1 = (PList (pre @ page # rest), tr2) \<and>
        rate_pages e c pre tr2 = (Inr (), tr') \<and>
        py_getitem page (PStr (U ''id'')) = Inr pid \<and> py_path page prompt_path = Inr up \<and>
        py_path page response_path = Inr ar \<and> fst (get_rating_from_ai e c up ar tr') = PNone \<and>
        respond e (tr' @ [chat_request c up ar, error_update pid]) = Inr r"
  then have a: "py_getitem page (PStr (U ''id'')) = Inr pid"
    and b: "py_path page prompt_path = Inr up"
    and c: "py_path page response_path = Inr ar"
    and d: "\<not> py_truthy (fst (get_rating_from_ai e c up ar tr'))"
    and r: "respond e (tr' @ [chat_request c up ar, error_update pid]) = Inr r"
    by simp_all
  from h have m: "main e tr =
     (case process_page e c page tr' of
        (Inl ex, tr'') \<Rightarrow> (Inl ex, tr'')
      | (Inr u, tr'') \<Rightarrow> rate_pages e c rest tr'')"
    using main_record by blast
  show "main e tr = rate_pages e c rest (tr' @ [chat_request c up ar, error_update pid])"
    by (simp add: m process_page_falsy_ok [OF a b c d r])
next
  fix pid
  show "error_update pid =
        PagesUpdate pid
          (PDict [(U ''Status'', PDict [(U ''select'', PDict [(U ''name'', PStr (U ''Error''))])])])"
    by (rule error_update_payload)
next
  fix pid tr1 tr2 pre rest response content rating
  assume h: "get_rating_criteria e tr = (Some c, tr1) \<and>
        get_unrated_responses e tr1 = (PList (pre @ page # rest), tr2) \<and>
        rate_pages e c pre tr2 = (Inr (), tr') \<and>
        py_getitem page (PStr (U ''id'')) = Inr pid \<and> py_path page prompt_path = Inr up \<and>
        py_path page response_path = Inr ar \<and>
        respond e (tr' @ [chat_request c up ar]) = Inr response \<and>
        message_content response = Inr (PStr content) \<and> json_loads e content = Inr rating \<and>
        py_truthy rating \<and> (\<forall>d. rating \<noteq> PDict d)"
  then show "get_rating_from_ai e c up ar tr' = (rating, tr' @ [chat_request c up ar])"
    by (simp add: get_rating_from_ai_decoded rating_of_response_text)
next
  fix pid tr1 tr2 pre rest response content rating
  assume h: "get_rating_criteria e tr = (Some c, tr1) \<and>
        get_unrated_responses e tr1 = (PList (pre @ page # rest), tr2) \<and>
        rate_pages e c pre tr2 = (Inr (), tr') \<and>
        py_getitem page (PStr (U ''id'')) = Inr pid \<and> py_path page prompt_path = Inr up \<and>
        py_path page response_path = Inr ar \<and>
        respond e (tr' @ [chat_request c up ar]) = Inr response \<and>
        message_content response = Inr (PStr content) \<and> json_loads e content = Inr rating \<and>
        py_truthy rating \<and> (\<forall>d. rating \<noteq> PDict d)"
  then have g: "get_rating_from_ai e c up ar tr' = (rating, tr' @ [chat_request c up ar])"
    by (simp add: get_rating_from_ai_decoded rating_of_response_text)
  from h have a: "py_getitem page (PStr (U ''id'')) = Inr pid"
    and b: "py_path page prompt_path = Inr up"
    and c: "py_path page response_path = Inr ar"
    and t: "py_truthy rating" and n: "\<forall>d. rating \<noteq> PDict d"
    by simp_all
  from h have m: "main e tr =
     (case process_page e c page tr' of
        (Inl ex, tr'') \<Rightarrow> (Inl ex, tr'')
      | (Inr u, tr'') \<Rightarrow> rate_pages e c rest tr'')"
    using main_record by blast
  show "main e tr = (Inl AttributeError, tr' @ [chat_request c up ar])"
    by (simp add: m process_page_not_dict [OF a b c g t n])
qed

theorem rating_failure_marks_error_witness:
  "get_rating_from_ai (sample_env [Inl (OtherError ''APIConnectionError'')])
      sample_criteria (PStr (U ''Hi'')) (PStr (U ''Hello'')) [] = (PNone, [sample_chat])
   \<and> get_rating_from_ai (sample_env [Inr (completion (PStr (U ''Sorry, no rating.'')))])
      sample_criteria (PStr (U ''Hi'')) (PStr (U ''Hello'')) [] = (PNone, [sample_chat])
   \<and> get_rating_from_ai (sample_env [Inr (completion PNone)])
      sample_criteria (PStr (U ''Hi'')) (PStr (U ''Hello'')) [] = (PNone, [sample_chat])
   \<and> main (sample_env [Inr (results_response sample_blocks),
                        Inr (results_response [sample_page ''p1'', sample_page ''p2'']),
                        Inr (completion (PStr (U ''Sorry, no rating.''))), Inr (PDict []),
                        Inr (completion (PStr sample_rating_text)), Inr (PDict [])]) [] =
       (Inr (),
        [BlocksChildrenList (U ''standards''), DatabasesQuery (U ''responses'') status_filter,
         sample_chat,
         PagesUpdate (PStr (U ''p1''))
           (PDict [(U ''Status'', PDict [(U ''select'', PDict [(U ''name'', PStr (U ''Error''))])])]),
         sample_chat,
         PagesUpdate (PStr (U ''p2''))
           (PDict [(U ''Evaluation Notes'',
                      PDict [(U ''rich_text'', PList [PDict [(U ''text'',
                         PDict [(U ''content'', PStr (U ''ok''))])]])]),
                   (U ''Status'', PDict [(U ''select'', PDict [(U ''name'', PStr (U ''Rated''))])]),
                   (U ''Clarity Score'', PDict [(U ''number'', PInt 4)])])])
   \<and> main (sample_env [Inr (results_response sample_blocks),
                        Inr (results_response [sample_page ''p1'', sample_page ''p2'']),
                        Inr (completion (PStr (U ''NaN'')))]) [] =
       (Inl AttributeError,
        [BlocksChildrenList (U ''standards''), DatabasesQuery (U ''responses'') status_filter,
         sample_chat])"
proof -
  let ?B = "BlocksChildrenList (U ''standards'')"
  let ?Q = "DatabasesQuery (U ''responses'') status_filter"
  let ?up = "PStr (U ''Hi'')"
  let ?ar = "PStr (U ''Hello'')"
  let ?p1 = "sample_page ''p1''"
  let ?pid = "PStr (U ''p1'')"
  have chat: "chat_request sample_criteria ?up ?ar = sample_chat"
    by (simp add: sample_chat_def)
  let ?e1 = "sample_env [Inl (OtherError ''APIConnectionError'')]"
  have h1: "respond ?e1 ([] @ [chat_request sample_criteria ?up ?ar]) =
              Inl (OtherError ''APIConnectionError'')"
    by (simp add: sample_env_def scripted_first)
  note a = rating_failure_marks_error [where e = ?e1 and tr' = "[]" and c = sample_criteria
      and up = ?up and ar = ?ar, THEN conjunct1, rule_format, OF h1]
  let ?e2 = "sample_env [Inr (completion (PStr (U ''Sorry, no rating.'')))]"
  have m: "message_content (completion (PStr (U ''Sorry, no rating.''))) =
             Inr (PStr (U ''Sorry, no rating.''))"
    by code_simp
  have l: "sample_loads (U ''Sorry, no rating.'') = Inl ValueError"
    by code_simp
  have h2: "respond ?e2 ([] @ [chat_request sample_criteria ?up ?ar]) =
              Inr (completion (PStr (U ''Sorry, no rating.''))) \<and>
        message_content (completion (PStr (U ''Sorry, no rating.''))) =
          Inr (PStr (U ''Sorry, no rating.'')) \<and>
        json_loads ?e2 (U ''Sorry, no rating.'') = Inl ValueError"
    using m l by (simp add: sample_env_def scripted_first)
  note b = rating_failure_marks_error [where e = ?e2 and tr' = "[]" and c = sample_criteria
      and up = ?up and ar = ?ar, THEN conjunct2, THEN conjunct1, rule_format, OF h2]
  let ?e3 = "sample_env [Inr (completion PNone)]"
  have m3: "message_content (completion PNone) = Inr PNone" by code_simp
  have h3: "respond ?e3 ([] @ [chat_request sample_criteria ?up ?ar]) = Inr (completion PNone) \<and>
        message_content (completion PNone) = Inr PNone \<and> (\<forall>s. PNone \<noteq> PStr s)"
    using m3 by (simp add: sample_env_def scripted_first)
  note c = rating_failure_marks_error [where e = ?e3 and tr' = "[]" and c = sample_criteria
      and up = ?up and ar = ?ar, THEN conjunct2, THEN conjunct2, THEN conjunct1, rule_format, OF h3]
  let ?e4 = "sample_env [Inr (results_response sample_blocks),
                         Inr (results_response [?p1, sample_page ''p2'']),
                         Inr (completion (PStr (U ''Sorry, no rating.''))), Inr (PDict []),
                         Inr (completion (PStr sample_rating_text)), Inr (PDict [])]"
  have p: "py_getitem ?p1 (PStr (U ''id'')) = Inr ?pid"
          "py_path ?p1 prompt_path = Inr ?up"
          "py_path ?p1 response_path = Inr ?ar"
    by code_simp+
  have g1: "get_rating_criteria ?e4 [] = (Some sample_criteria, [?B])" by code_simp
  have g2: "get_unrated_responses ?e4 [?B] = (PList ([] @ ?p1 # [sample_page ''p2'']), [?B, ?Q])"
    by code_simp
  have g3: "fst (get_rating_from_ai ?e4 sample_criteria ?up ?ar [?B, ?Q]) = PNone"
    by code_simp
  have h4: "get_rating_criteria ?e4 [] = (Some sample_criteria, [?B]) \<and>
        get_unrated_responses ?e4 [?B] = (PList ([] @ ?p1 # [sample_page ''p2'']), [?B, ?Q]) \<and>
        rate_pages ?e4 sample_criteria [] [?B, ?Q] = (Inr (), [?B, ?Q]) \<and>
        py_getitem ?p1 (PStr (U ''id'')) = Inr ?pid \<and> py_path ?p1 prompt_path = Inr ?up \<and>
        py_path ?p1 response_path = Inr ?ar \<and>
        fst (get_rating_from_ai ?e4 sample_criteria ?up ?ar [?B, ?Q]) = PNone \<and>
        respond ?e4 ([?B, ?Q] @ [chat_request sample_criteria ?up ?ar, error_update ?pid]) =
          Inr (PDict [])"
    using p g1 g2 g3 by (simp add: sample_env_def scripted_fourth)
  note d = rating_failure_marks_error [where e = ?e4 and tr = "[]" and tr' = "[?B, ?Q]"
      and c = sample_criteria and up = ?up and ar = ?ar and page = ?p1,
      THEN conjunct2, THEN conjunct2, THEN conjunct2, THEN conjunct2, THEN conjunct2,
      THEN conjunct1, rule_format, OF h4]
  have rest: "rate_pages ?e4 sample_criteria [sample_page ''p2'']
                ([?B, ?Q] @ [chat_request sample_criteria ?up ?ar, error_update ?pid]) =
       (Inr (),
        [?B, ?Q, sample_chat,
         PagesUpdate (PStr (U ''p1''))
           (PDict [(U ''Status'', PDict [(U ''select'', PDict [(U ''name'', PStr (U ''Error''))])])]),
         sample_chat,
         PagesUpdate (PStr (U ''p2''))
           (PDict [(U ''Evaluation Notes'',
                      PDict [(U ''rich_text'', PList [PDict [(U ''text'',
                         PDict [(U ''content'', PStr (U ''ok''))])]])]),
                   (U ''Status'', PDict [(U ''select'', PDict [(U ''name'', PStr (U ''Rated''))])]),
                   (U ''Clarity Score'', PDict [(U ''number'', PInt 4)])])])"
    by code_simp
  let ?e5 = "sample_env [Inr (results_response sample_blocks),
                         Inr (results_response [?p1, sample_page ''p2'']),
                         Inr (completion (PStr (U ''NaN'')))]"
  have k1: "get_rating_criteria ?e5 [] = (Some sample_criteria, [?B])" by code_simp
  have k2: "get_unrated_responses ?e5 [?B] = (PList ([] @ ?p1 # [sample_page ''p2'']), [?B, ?Q])"
    by code_simp
  have k3: "message_content (completion (PStr (U ''NaN''))) = Inr (PStr (U ''NaN''))"
    "sample_loads (U ''NaN'') = Inr (PFloat NaN)"
    by code_simp+
  have h5: "get_rating_criteria ?e5 [] = (Some sample_criteria, [?B]) \<and>
        get_unrated_responses ?e5 [?B] = (PList ([] @ ?p1 # [sample_page ''p2'']), [?B, ?Q]) \<and>
        rate_pages ?e5 sample_criteria [] [?B, ?Q] = (Inr (), [?B, ?Q]) \<and>
        py_getitem ?p1 (PStr (U ''id'')) = Inr ?pid \<and> py_path ?p1 prompt_path = Inr ?up \<and>
        py_path ?p1 response_path = Inr ?ar \<and>
        respond ?e5 ([?B, ?Q] @ [chat_request sample_criteria ?up ?ar]) =
          Inr (completion (PStr (U ''NaN''))) \<and>
        message_content (completion (PStr (U ''NaN''))) = Inr (PStr (U ''NaN'')) \<and>
        json_loads ?e5 (U ''NaN'') = Inr (PFloat NaN) \<and>
        py_truthy (PFloat NaN) \<and> (\<forall>d. PFloat NaN \<noteq> PDict d)"
    using p k1 k2 k3 by (simp add: sample_env_def scripted_third)
  note f = rating_failure_marks_error [where e = ?e5 and tr = "[]" and tr' = "[?B, ?Q]"
      and c = sample_criteria and up = ?up and ar = ?ar and page = ?p1,
      THEN conjunct2, THEN conjunct2, THEN conjunct2, THEN conjunct2, THEN conjunct2,
      THEN conjunct2, THEN conjunct2, rule_format, OF h5, THEN conjunct2]
  from a b c d rest f show ?thesis by (simp add: chat)
qed

text \<open>
  Claim C9. When the chat request returns and the content decodes, without any error, to a
  value that is false in a condition, \<^verbatim>\<open>get_rating_from_ai\<close> returns that value and the driver
  treats the record as it treats a failed rating: its requests are the chat request and the
  update that sets the select \<open>Status\<close> to \<open>Error\<close>, never the writer's update. This holds for
  the loop body, and for \<^verbatim>\<open>main\<close> at every position of the fetched list: when the records
  before it were processed without an exception and the update returns, \<^verbatim>\<open>main\<close> goes on with
  the records after it. The empty object is false in a condition, and it is what the rating
  engine returns for a content that decodes to it.
\<close>

theorem falsy_rating_marks_error:
  "(\<forall>response rating pid.
      py_getitem page (PStr (U ''id'')) = Inr pid \<and> py_path page prompt_path = Inr up \<and>
      py_path page response_path = Inr ar \<and>
      respond e (tr' @ [chat_request c up ar]) = Inr response \<and>
      rating_of_response e response = Inr rating \<and> \<not> py_truthy rating \<longrightarrow>
      get_rating_from_ai e c up ar tr' = (rating, tr' @ [chat_request c up ar])
      \<and> snd (process_page e c page tr') =
          tr' @ chat_request c up ar # error_update pid #
            (if respond e (tr' @ [chat_request c up ar, error_update pid]) = Inl KeyError \<or>
                respond e (tr' @ [chat_request c up ar, error_update pid]) = Inl IndexError
             then [error_update pid] else [])
      \<and> (\<forall>r. respond e (tr' @ [chat_request c up ar, error_update pid]) = Inr r \<longrightarrow>
            process_page e c page tr' =
              (Inr (), tr' @ [chat_request c up ar, error_update pid])))
   \<and> (\<forall>response rating pid tr1 tr2 pre rest r.
        get_rating_criteria e tr = (Some c, tr1) \<and>
        get_unrated_responses e tr1 = (PList (pre @ page # rest), tr2) \<and>
        rate_pages e c pre tr2 = (Inr (), tr') \<and>
        py_getitem page (PStr (U ''id'')) = Inr pid \<and> py_path page prompt_path = Inr up \<and>
        py_path page response_path = Inr ar \<and>
        respond e (tr' @ [chat_request c up ar]) = Inr response \<and>
        rating_of_response e response = Inr rating \<and> \<not> py_truthy rating \<and>
        respond e (tr' @ [chat_request c up ar, error_update pid]) = Inr r \<longrightarrow>
        main e tr = rate_pages e c rest (tr' @ [chat_request c up ar, error_update pid]))
   \<and> (\<not> py_truthy (PDict []) \<and> \<not> py_truthy PNone \<and> \<not> py_truthy (PList []) \<and>
      \<not> py_truthy (PStr []) \<and> \<not> py_truthy (PInt 0) \<and> \<not> py_truthy (PBool False) \<and>
      py_truthy (PDict [kv]) \<and> py_truthy (PList [v]) \<and> py_truthy (PInt 1) \<and>
      py_truthy (PBool True))
   \<and> (\<forall>response content.
        message_content response = Inr (PStr content) \<and> json_loads e content = Inr (PDict []) \<longrightarrow>
        rating_of_response e response = Inr (PDict []))
   \<and> (\<forall>pid. error_update pid =
        PagesUpdate pid
          (PDict [(U ''Status'', PDict [(U ''select'', PDict [(U ''name'', PStr (U ''Error''))])])]))"
proof (intro conjI allI impI)
  fix response rating pid
  assume h: "py_getitem page (PStr (U ''id'')) = Inr pid \<and> py_path page prompt_path = Inr up \<and>
      py_path page response_path = Inr ar \<and>
      respond e (tr' @ [chat_request c up ar]) = Inr response \<and>
      rating_of_response e response = Inr rating \<and> \<not> py_truthy rating"
  then show "get_rating_from_ai e c up ar tr' = (rating, tr' @ [chat_request c up ar])"
    by (simp add: get_rating_from_ai_decoded)
next
  fix response rating pid
  assume h: "py_getitem page (PStr (U ''id'')) = Inr pid \<and> py_path page prompt_path = Inr up \<and>
      py_path page response_path = Inr ar \<and>
      respond e (tr' @ [chat_request c up ar]) = Inr response \<and>
      rating_of_response e response = Inr rating \<and> \<not> py_truthy rating"
  then have g: "get_rating_from_ai e c up ar tr' = (rating, tr' @ [chat_request c up ar])"
    by (simp add: get_rating_from_ai_decoded)
  from h g have a: "py_getitem page (PStr (U ''id'')) = Inr pid"
    and b: "py_path page prompt_path = Inr up" and c: "py_path page response_path = Inr ar"
    and d: "\<not> py_truthy (fst (get_rating_from_ai e c up ar tr'))"
    by simp_all
  show "snd (process_page e c page tr') =
          tr' @ chat_request c up ar # error_update pid #
            (if respond e (tr' @ [chat_request c up ar, error_update pid]) = Inl KeyError \<or>
                respond e (tr' @ [chat_request c up ar, error_update pid]) = Inl IndexError
             then [error_update pid] else [])"
    by (rule process_page_falsy_trace [OF a b c d])
next
  fix response rating pid r
  assume h: "py_getitem page (PStr (U ''id'')) = Inr pid \<and> py_path page prompt_path = Inr up \<and>
      py_path page response_path = Inr ar \<and>
      respond e (tr' @ [chat_request c up ar]) = Inr response \<and>
      rating_of_response e response = Inr rating \<and> \<not> py_truthy rating"
    and r: "respond e (tr' @ [chat_request c up ar, error_update pid]) = Inr r"
  then have g: "get_rating_from_ai e c up ar tr' = (rating, tr' @ [chat_request c up ar])"
    by (simp add: get_rating_from_ai_decoded)
  from h g have a: "py_getitem page (PStr (U ''id'')) = Inr pid"
    and b: "py_path page prompt_path = Inr up" and c: "py_path page response_path = Inr ar"
    and d: "\<not> py_truthy (fst (get_rating_from_ai e c up ar tr'))"
    by simp_all
  show "process_page e c page tr' = (Inr (), tr' @ [chat_request c up ar, error_update pid])"
    by (rule process_page_falsy_ok [OF a b c d r])
next
  fix response rating pid tr1 tr2 pre rest r
  assume h: "get_rating_criteria e tr = (Some c, tr1) \<and>
        get_unrated_responses e tr1 = (PList (pre @ page # rest), tr2) \<and>
        rate_pages e c pre tr2 = (Inr (), tr') \<and>
        py_getitem page (PStr (U ''id'')) = Inr pid \<and> py_path page prompt_path = Inr up \<and>
        py_path page response_path = Inr ar \<and>
        respond e (tr' @ [chat_request c up ar]) = Inr response \<and>
        rating_of_response e response = Inr rating \<and> \<not> py_truthy rating \<and>
        respond e (tr' @ [chat_request c up ar, error_update pid]) = Inr r"
  then have g: "get_rating_from_ai e c up ar tr' = (rating, tr' @ [chat_request c up ar])"
    by (simp add: get_rating_from_ai_decoded)
  from h g have a: "py_getitem page (PStr (U ''id'')) = Inr pid"
    and b: "py_path page prompt_path = Inr up" and c: "py_path page response_path = Inr ar"
    and d: "\<not> py_truthy (fst (get_rating_from_ai e c up ar tr'))"
    and r: "respond e (tr' @ [chat_request c up ar, error_update pid]) = Inr r"
    by simp_all
  from h have m: "main e tr =
     (case process_page e c page tr' of
        (Inl ex, tr'') \<Rightarrow> (Inl ex, tr'')
      | (Inr u, tr'') \<Rightarrow> rate_pages e c rest tr'')"
    using main_record by blast
  show "main e tr = rate_pages e c rest (tr' @ [chat_request c up ar, error_update pid])"
    by (simp add: m process_page_falsy_ok [OF a b c d r])
next
  fix response content
  assume "message_content response = Inr (PStr content) \<and> json_loads e content = Inr (PDict [])"
  then show "rating_of_response e response = Inr (PDict [])"
    by (simp add: rating_of_response_text)
next
  fix pid
  show "error_update pid =
        PagesUpdate pid
          (PDict [(U ''Status'', PDict [(U ''select'', PDict [(U ''name'', PStr (U ''Error''))])])])"
    by (rule error_update_payload)
qed simp_all

theorem falsy_rating_marks_error_witness:
  "rating_of_response (sample_env []) (completion (PStr (U ''{}''))) = Inr (PDict [])
   \<and> get_rating_from_ai (sample_env [Inr (completion (PStr (U ''{}'')))])
      sample_criteria (PStr (U ''Hi'')) (PStr (U ''Hello'')) [] = (PDict [], [sample_chat])
   \<and> main (sample_env [Inr (results_response sample_blocks),
                        Inr (results_response [sample_page ''p1'', sample_page ''p2'']),
                        Inr (completion (PStr (U ''{}''))), Inr (PDict []),
                        Inr (completion (PStr sample_rating_text)), Inr (PDict [])]) [] =
       (Inr (),
        [BlocksChildrenList (U ''standards''), DatabasesQuery (U ''responses'') status_filter,
         sample_chat,
         PagesUpdate (PStr (U ''p1''))
           (PDict [(U ''Status'', PDict [(U ''select'', PDict [(U ''name'', PStr (U ''Error''))])])]),
         sample_chat,
         PagesUpdate (PStr (U ''p2''))
           (PDict [(U ''Evaluation Notes'',
                      PDict [(U ''rich_text'', PList [PDict [(U ''text'',
                         PDict [(U ''content'', PStr (U ''ok''))])]])]),
                   (U ''Status'', PDict [(U ''select'', PDict [(U ''name'', PStr (U ''Rated''))])]),
                   (U ''Clarity Score'', PDict [(U ''number'', PInt 4)])])])"
proof -
  let ?B = "BlocksChildrenList (U ''standards'')"
  let ?Q = "DatabasesQuery (U ''responses'') status_filter"
  let ?up = "PStr (U ''Hi'')"
  let ?ar = "PStr (U ''Hello'')"
  let ?p1 = "sample_page ''p1''"
  let ?pid = "PStr (U ''p1'')"
  let ?comp = "completion (PStr (U ''{}''))"
  have chat: "chat_request sample_criteria ?up ?ar = sample_chat"
    by (simp add: sample_chat_def)
  have mc: "message_content ?comp = Inr (PStr (U ''{}''))" by code_simp
  have ld: "sample_loads (U ''{}'') = Inr (PDict [])" by code_simp
  have m0: "message_content ?comp = Inr (PStr (U ''{}'')) \<and>
            json_loads (sample_env []) (U ''{}'') = Inr (PDict [])"
    using mc ld by (simp add: sample_env_def)
  note r0 = falsy_rating_marks_error [where e = "sample_env []",
      THEN conjunct2, THEN conjunct2, THEN conjunct2, THEN conjunct1, rule_format, OF m0]
  have p: "py_getitem ?p1 (PStr (U ''id'')) = Inr ?pid"
          "py_path ?p1 prompt_path = Inr ?up"
          "py_path ?p1 response_path = Inr ?ar"
    by code_simp+
  let ?e1 = "sample_env [Inr ?comp]"
  have r1: "rating_of_response ?e1 ?comp = Inr (PDict [])"
    using mc ld by (simp add: rating_of_response_text sample_env_def)
  have h1: "py_getitem ?p1 (PStr (U ''id'')) = Inr ?pid \<and> py_path ?p1 prompt_path = Inr ?up \<and>
      py_path ?p1 response_path = Inr ?ar \<and>
      respond ?e1 ([] @ [chat_request sample_criteria ?up ?ar]) = Inr ?comp \<and>
      rating_of_response ?e1 ?comp = Inr (PDict []) \<and> \<not> py_truthy (PDict [])"
    using p r1 by (simp add: sample_env_def scripted_first)
  note a = falsy_rating_marks_error [where e = ?e1 and tr' = "[]" and c = sample_criteria
      and up = ?up and ar = ?ar and page = ?p1, THEN conjunct1, rule_format, OF h1, THEN conjunct1]
  let ?e = "sample_env [Inr (results_response sample_blocks),
                        Inr (results_response [?p1, sample_page ''p2'']),
                        Inr ?comp, Inr (PDict []),
                        Inr (completion (PStr sample_rating_text)), Inr (PDict [])]"
  have g1: "get_rating_criteria ?e [] = (Some sample_criteria, [?B])" by code_simp
  have g2: "get_unrated_responses ?e [?B] = (PList ([] @ ?p1 # [sample_page ''p2'']), [?B, ?Q])"
    by code_simp
  have r2: "rating_of_response ?e ?comp = Inr (PDict [])"
    using mc ld by (simp add: rating_of_response_text sample_env_def)
  have h: "get_rating_criteria ?e [] = (Some sample_criteria, [?B]) \<and>
        get_unrated_responses ?e [?B] = (PList ([] @ ?p1 # [sample_page ''p2'']), [?B, ?Q]) \<and>
        rate_pages ?e sample_criteria [] [?B, ?Q] = (Inr (), [?B, ?Q]) \<and>
        py_getitem ?p1 (PStr (U ''id'')) = Inr ?pid \<and> py_path ?p1 prompt_path = Inr ?up \<and>
        py_path ?p1 response_path = Inr ?ar \<and>
        respond ?e ([?B, ?Q] @ [chat_request sample_criteria ?up ?ar]) = Inr ?comp \<and>
        rating_of_response ?e ?comp = Inr (PDict []) \<and> \<not> py_truthy (PDict []) \<and>
        respond ?e ([?B, ?Q] @ [chat_request sample_criteria ?up ?ar, error_update ?pid]) =
          Inr (PDict [])"
    using p g1 g2 r2 by (simp add: sample_env_def scripted_third scripted_fourth)
  note d = falsy_rating_marks_error [where e = ?e and tr = "[]" and tr' = "[?B, ?Q]"
      and c = sample_criteria and up = ?up and ar = ?ar and page = ?p1,
      THEN conjunct2, THEN conjunct1, rule_format, OF h]
  have rest: "rate_pages ?e sample_criteria [sample_page ''p2'']
                ([?B, ?Q] @ [chat_request sample_criteria ?up ?ar, error_update ?pid]) =
       (Inr (),
        [?B, ?Q, sample_chat,
         PagesUpdate (PStr (U ''p1''))
           (PDict [(U ''Status'', PDict [(U ''select'', PDict [(U ''name'', PStr (U ''Error''))])])]),
         sample_chat,
         PagesUpdate (PStr (U ''p2''))
           (PDict [(U ''Evaluation Notes'',
                      PDict [(U ''rich_text'', PList [PDict [(U ''text'',
                         PDict [(U ''content'', PStr (U ''ok''))])]])]),
                   (U ''Status'', PDict [(U ''select'', PDict [(U ''name'', PStr (U ''Rated''))])]),
                   (U ''Clarity Score'', PDict [(U ''number'', PInt 4)])])])"
    by code_simp
  from r0 a d rest show ?thesis by (simp add: chat)
qed

section \<open>A failed update of the status\<close>

text \<open>
  Claim C2, as stated, fails. With a service that rejects both the writer's update and its
  fallback, the fallback's exception leaves \<^verbatim>\<open>update_notion_page\<close>. With a first record that has
  no \<open>AI Response\<close> and a service that rejects the update setting its \<open>Status\<close> to \<open>Error\<close>, the
  exception leaves \<^verbatim>\<open>main\<close>, and the second record is never processed.
\<close>

theorem failed_error_write_counterexample:
  "update_notion_page
      (sample_env [Inl (OtherError ''APIResponseError''), Inl (OtherError ''RequestTimeoutError'')])
      (PStr (U ''p1'')) (PDict [(U ''clarity_score'', PInt 4)]) [] =
     (Inl (OtherError ''RequestTimeoutError''),
      [PagesUpdate (PStr (U ''p1'')) 
         (PDict [(U ''Evaluation Notes'', PDict [(U ''rich_text'', PList [PDict [(U ''text'', PDict [(U ''content'', PStr (U ''N/A''))])]])]), (U ''Status'', PDict [(U ''select'', PDict [(U ''name'', PStr (U ''Rated''))])]), (U ''Clarity Score'', PDict [(U ''number'', PInt 4)])]),
       error_update (PStr (U ''p1''))])
   \<and> main
      (sample_env [Inr (results_response sample_blocks),
                   Inr (results_response [page_without_response ''p1'', sample_page ''p2'']),
                   Inl (OtherError ''RequestTimeoutError'')]) [] =
     (Inl (OtherError ''RequestTimeoutError''),
      [BlocksChildrenList (U ''standards''), DatabasesQuery (U ''responses'') status_filter,
       error_update (PStr (U ''p1''))])"
  by code_simp

text \<open>
  Claim C2, amended. None of the three updates that set \<open>Status\<close> to \<open>Error\<close> is inside a \<^verbatim>\<open>try\<close>
  of its own, so its failure is not swallowed. When the writer's update and its fallback both
  fail, the fallback's exception leaves the writer. In the driver, the loop over the records
  ends with the exception, before the records that follow, in each of these cases: the
  handler's update fails after the prompt or the response could not be read; the update after
  a failed rating raises anything but \<^verbatim>\<open>KeyError\<close> and \<^verbatim>\<open>IndexError\<close>; that update raises one of
  these two, so that the handler issues it once more, and it fails again; the writer's
  fallback raises anything but these two.
\<close>

theorem failed_error_write_propagates:
  "(\<forall>ex1 ex2.
      respond e (tr @ [PagesUpdate pid (PDict (properties_to_update e rating))]) = Inl ex1 \<and>
      respond e (tr @ [PagesUpdate pid (PDict (properties_to_update e rating)), error_update pid])
        = Inl ex2 \<longrightarrow>
      update_notion_page e pid (PDict rating) tr =
        (Inl ex2, tr @ [PagesUpdate pid (PDict (properties_to_update e rating)), error_update pid]))
   \<and> (\<forall>ex ex'.
        py_getitem page (PStr (U ''id'')) = Inr pid \<and> (ex = KeyError \<or> ex = IndexError) \<and>
        (py_path page prompt_path = Inl ex \<or>
         (\<exists>up. py_path page prompt_path = Inr up) \<and> py_path page response_path = Inl ex) \<and>
        respond e (tr @ [error_update pid]) = Inl ex' \<longrightarrow>
        rate_pages e c (page # rest) tr = (Inl ex', tr @ [error_update pid]))
   \<and> (\<forall>up ar ex.
        py_getitem page (PStr (U ''id'')) = Inr pid \<and> py_path page prompt_path = Inr up \<and>
        py_path page response_path = Inr ar \<and>
        \<not> py_truthy (fst (get_rating_from_ai e c up ar tr)) \<and>
        respond e (tr @ [chat_request c up ar, error_update pid]) = Inl ex \<and>
        ex \<noteq> KeyError \<and> ex \<noteq> IndexError \<longrightarrow>
        rate_pages e c (page # rest) tr = (Inl ex, tr @ [chat_request c up ar, error_update pid]))
   \<and> (\<forall>up ar ex ex'.
        py_getitem page (PStr (U ''id'')) = Inr pid \<and> py_path page prompt_path = Inr up \<and>
        py_path page response_path = Inr ar \<and>
        \<not> py_truthy (fst (get_rating_from_ai e c up ar tr)) \<and>
        respond e (tr @ [chat_request c up ar, error_update pid]) = Inl ex \<and>
        (ex = KeyError \<or> ex = IndexError) \<and>
        respond e (tr @ [chat_request c up ar, error_update pid, error_update pid]) = Inl ex' \<longrightarrow>
        rate_pages e c (page # rest) tr =
          (Inl ex', tr @ [chat_request c up ar, error_update pid, error_update pid]))
   \<and> (\<forall>up ar ex1 ex2.
        py_getitem page (PStr (U ''id'')) = Inr pid \<and> py_path page prompt_path = Inr up \<and>
        py_path page response_path = Inr ar \<and>
        fst (get_rating_from_ai e c up ar tr) = PDict rating \<and> rating \<noteq> [] \<and>
        respond e (tr @ [chat_request c up ar,
                         PagesUpdate pid (PDict (properties_to_update e rating))]) = Inl ex1 \<and>
        respond e (tr @ [chat_request c up ar,
                         PagesUpdate pid (PDict (properties_to_update e rating)),
                         error_update pid]) = Inl ex2 \<and>
        ex2 \<noteq> KeyError \<and> ex2 \<noteq> IndexError \<longrightarrow>
        rate_pages e c (page # rest) tr =
          (Inl ex2, tr @ [chat_request c up ar,
                          PagesUpdate pid (PDict (properties_to_update e rating)),
                          error_update pid]))"
proof (intro conjI allI impI)
  fix ex1 ex2
  assume "respond e (tr @ [PagesUpdate pid (PDict (properties_to_update e rating))]) = Inl ex1 \<and>
      respond e (tr @ [PagesUpdate pid (PDict (properties_to_update e rating)), error_update pid])
        = Inl ex2"
  then show "update_notion_page e pid (PDict rating) tr =
        (Inl ex2, tr @ [PagesUpdate pid (PDict (properties_to_update e rating)), error_update pid])"
    using update_notion_page_both_fail by blast
next
  fix ex ex'
  assume h: "py_getitem page (PStr (U ''id'')) = Inr pid \<and> (ex = KeyError \<or> ex = IndexError) \<and>
        (py_path page prompt_path = Inl ex \<or>
         (\<exists>up. py_path page prompt_path = Inr up) \<and> py_path page response_path = Inl ex) \<and>
        respond e (tr @ [error_update pid]) = Inl ex'"
  then have "process_page e c page tr = pages_update_error e pid tr"
    using process_page_extraction_error [where ex = ex and pid = pid and page = page] by blast
  with h have "process_page e c page tr = (Inl ex', tr @ [error_update pid])"
    by (simp add: pages_update_error_eq)
  then show "rate_pages e c (page # rest) tr = (Inl ex', tr @ [error_update pid])"
    by (rule rate_pages_raises)
next
  fix up ar ex
  assume h: "py_getitem page (PStr (U ''id'')) = Inr pid \<and> py_path page prompt_path = Inr up \<and>
        py_path page response_path = Inr ar \<and>
        \<not> py_truthy (fst (get_rating_from_ai e c up ar tr)) \<and>
        respond e (tr @ [chat_request c up ar, error_update pid]) = Inl ex \<and>
        ex \<noteq> KeyError \<and> ex \<noteq> IndexError"
  then have "process_page e c page tr = (Inl ex, tr @ [chat_request c up ar, error_update pid])"
    by (intro process_page_falsy_raises) simp_all
  then show "rate_pages e c (page # rest) tr =
      (Inl ex, tr @ [chat_request c up ar, error_update pid])"
    by (rule rate_pages_raises)
next
  fix up ar ex ex'
  assume h: "py_getitem page (PStr (U ''id'')) = Inr pid \<and> py_path page prompt_path = Inr up \<and>
        py_path page response_path = Inr ar \<and>
        \<not> py_truthy (fst (get_rating_from_ai e c up ar tr)) \<and>
        respond e (tr @ [chat_request c up ar, error_update pid]) = Inl ex \<and>
        (ex = KeyError \<or> ex = IndexError) \<and>
        respond e (tr @ [chat_request c up ar, error_update pid, error_update pid]) = Inl ex'"
  then have a: "py_getitem page (PStr (U ''id'')) = Inr pid" and b: "py_path page prompt_path = Inr up"
    and c: "py_path page response_path = Inr ar"
    and d: "\<not> py_truthy (fst (get_rating_from_ai e c up ar tr))"
    by simp_all
  from h have "process_page e c page tr =
      (Inl ex', tr @ [chat_request c up ar, error_update pid, error_update pid])"
    unfolding process_page_falsy [OF a b c d] by (auto simp: pages_update_error_eq)
  then show "rate_pages e c (page # rest) tr =
      (Inl ex', tr @ [chat_request c up ar, error_update pid, error_update pid])"
    by (rule rate_pages_raises)
next
  fix up ar ex1 ex2
  let ?u = "PagesUpdate pid (PDict (properties_to_update e rating))"
  assume h: "py_getitem page (PStr (U ''id'')) = Inr pid \<and> py_path page prompt_path = Inr up \<and>
        py_path page response_path = Inr ar \<and>
        fst (get_rating_from_ai e c up ar tr) = PDict rating \<and> rating \<noteq> [] \<and>
        respond e (tr @ [chat_request c up ar, ?u]) = Inl ex1 \<and>
        respond e (tr @ [chat_request c up ar, ?u, error_update pid]) = Inl ex2 \<and>
        ex2 \<noteq> KeyError \<and> ex2 \<noteq> IndexError"
  then have g: "get_rating_from_ai e c up ar tr = (PDict rating, tr @ [chat_request c up ar])"
    using get_rating_from_ai_trace [of e c up ar tr] by (simp add: prod_eq_iff)
  from h have a: "py_getitem page (PStr (U ''id'')) = Inr pid" and b: "py_path page prompt_path = Inr up"
    and c: "py_path page response_path = Inr ar" and d: "py_truthy (PDict rating)"
    by simp_all
  from h have w: "update_notion_page e pid (PDict rating) (tr @ [chat_request c up ar]) =
      (Inl ex2, (tr @ [chat_request c up ar]) @ [?u, error_update pid])"
    by (intro update_notion_page_both_fail [where ?ex1.0 = ex1]) simp_all
  from h have "process_page e c page tr =
      (Inl ex2, tr @ [chat_request c up ar, ?u, error_update pid])"
    unfolding process_page_truthy [OF a b c g d] w by simp
  then show "rate_pages e c (page # rest) tr =
      (Inl ex2, tr @ [chat_request c up ar, ?u, error_update pid])"
    by (rule rate_pages_raises)
qed

theorem failed_error_write_propagates_witness:
  \<open>update_notion_page
      (sample_env [Inl (OtherError ''APIResponseError''), Inl (OtherError ''RequestTimeoutError'')])
      (PStr (U ''p1'')) (PDict [(U ''clarity_score'', PInt 4)]) [] =
     (Inl (OtherError ''RequestTimeoutError''),
      [PagesUpdate (PStr (U ''p1'')) 
         (PDict [(U ''Evaluation Notes'', PDict [(U ''rich_text'', PList [PDict [(U ''text'', PDict [(U ''content'', PStr (U ''N/A''))])]])]), (U ''Status'', PDict [(U ''select'', PDict [(U ''name'', PStr (U ''Rated''))])]), (U ''Clarity Score'', PDict [(U ''number'', PInt 4)])]),
       error_update (PStr (U ''p1''))])
   \<and> rate_pages (sample_env [Inl (OtherError ''RequestTimeoutError'')]) (U ''Be clear.'')
        [page_without_response ''p1'', sample_page ''p2''] [] =
     (Inl (OtherError ''RequestTimeoutError''), [error_update (PStr (U ''p1''))])
   \<and> rate_pages
        (sample_env [Inl (OtherError ''APIConnectionError''), Inl (OtherError ''RequestTimeoutError'')])
        (U ''Be clear.'') [sample_page ''p1'', sample_page ''p2''] [] =
     (Inl (OtherError ''RequestTimeoutError''),
      [chat_request (U ''Be clear.'') (PStr (U ''Hi'')) (PStr (U ''Hello'')), error_update (PStr (U ''p1''))])
   \<and> rate_pages
        (sample_env [Inl (OtherError ''APIConnectionError''), Inl KeyError,
                     Inl (OtherError ''RequestTimeoutError'')])
        (U ''Be clear.'') [sample_page ''p1'', sample_page ''p2''] [] =
     (Inl (OtherError ''RequestTimeoutError''),
      [chat_request (U ''Be clear.'') (PStr (U ''Hi'')) (PStr (U ''Hello'')), error_update (PStr (U ''p1'')),
       error_update (PStr (U ''p1''))])
   \<and> rate_pages
        (sample_env [Inr (completion (PStr sample_rating_text)),
                     Inl (OtherError ''APIResponseError''),
                     Inl (OtherError ''RequestTimeoutError'')])
        (U ''Be clear.'') [sample_page ''p1'', sample_page ''p2''] [] =
     (Inl (OtherError ''RequestTimeoutError''),
      [chat_request (U ''Be clear.'') (PStr (U ''Hi'')) (PStr (U ''Hello'')),
       PagesUpdate (PStr (U ''p1'')) 
         (PDict [(U ''Evaluation Notes'', PDict [(U ''rich_text'', PList [PDict [(U ''text'', PDict [(U ''content'', PStr (U ''ok''))])]])]), (U ''Status'', PDict [(U ''select'', PDict [(U ''name'', PStr (U ''Rated''))])]), (U ''Clarity Score'', PDict [(U ''number'', PInt 4)])]),
       error_update (PStr (U ''p1''))])\<close>
proof -
  let ?A = "Inl (OtherError ''APIResponseError'') :: exn + pyval"
  let ?B = "Inl (OtherError ''RequestTimeoutError'') :: exn + pyval"
  let ?C = "Inl (OtherError ''APIConnectionError'') :: exn + pyval"
  let ?chat = "chat_request (U ''Be clear.'') (PStr (U ''Hi'')) (PStr (U ''Hello''))"
  let ?r = "[(U ''clarity_score'', PInt 4)]"
  let ?e1 = "sample_env [?A, ?B]"
  let ?u = "PagesUpdate (PStr (U ''p1'')) (PDict (properties_to_update ?e1 ?r))"
  have pu: "properties_to_update ?e1 ?r =
      [(U ''Evaluation Notes'', PDict [(U ''rich_text'', PList [PDict [(U ''text'', PDict [(U ''content'', PStr (U ''N/A''))])]])]), (U ''Status'', PDict [(U ''select'', PDict [(U ''name'', PStr (U ''Rated''))])]), (U ''Clarity Score'', PDict [(U ''number'', PInt 4)])]"
    by code_simp
  let ?e2 = "sample_env [?B]"
  let ?e3 = "sample_env [?C, ?B]"
  let ?e4 = "sample_env [?C, Inl KeyError, ?B]"
  have h1: "respond ?e1 ([] @ [?u]) = Inl (OtherError ''APIResponseError'') \<and>
            respond ?e1 ([] @ [?u, error_update (PStr (U ''p1''))]) = Inl (OtherError ''RequestTimeoutError'')"
    by (simp add: sample_env_def scripted_first scripted_second)
  note a = failed_error_write_propagates [of ?e1 "[]" "PStr (U ''p1'')" ?r,
      THEN conjunct1, rule_format, OF h1]
  have q: "py_getitem (page_without_response ''p1'') (PStr (U ''id'')) = Inr (PStr (U ''p1''))"
          "py_path (page_without_response ''p1'') prompt_path = Inr (PStr (U ''Hi''))"
          "py_path (page_without_response ''p1'') response_path = Inl KeyError"
    by code_simp+
  have h2: "py_getitem (page_without_response ''p1'') (PStr (U ''id'')) = Inr (PStr (U ''p1'')) \<and>
        (KeyError = KeyError \<or> KeyError = IndexError) \<and>
        (py_path (page_without_response ''p1'') prompt_path = Inl KeyError \<or>
         (\<exists>up. py_path (page_without_response ''p1'') prompt_path = Inr up) \<and>
         py_path (page_without_response ''p1'') response_path = Inl KeyError) \<and>
        respond ?e2 ([] @ [error_update (PStr (U ''p1''))]) = Inl (OtherError ''RequestTimeoutError'')"
    using q by (simp add: sample_env_def scripted_first)
  note b = failed_error_write_propagates [of ?e2 "[]" "PStr (U ''p1'')" _ "page_without_response ''p1''"
      "(U ''Be clear.'')" "[sample_page ''p2'']",
      THEN conjunct2, THEN conjunct1, rule_format, OF h2]
  have p: "py_getitem (sample_page ''p1'') (PStr (U ''id'')) = Inr (PStr (U ''p1''))"
          "py_path (sample_page ''p1'') prompt_path = Inr (PStr (U ''Hi''))"
          "py_path (sample_page ''p1'') response_path = Inr (PStr (U ''Hello''))"
    by code_simp+
  have g3: "get_rating_from_ai ?e3 (U ''Be clear.'') (PStr (U ''Hi'')) (PStr (U ''Hello'')) [] = (PNone, [?chat])"
    using get_rating_from_ai_service_error [of ?e3 "[]" "(U ''Be clear.'')" "PStr (U ''Hi'')" "PStr (U ''Hello'')"]
    by (simp add: sample_env_def scripted_first)
  have h3: "py_getitem (sample_page ''p1'') (PStr (U ''id'')) = Inr (PStr (U ''p1'')) \<and>
        py_path (sample_page ''p1'') prompt_path = Inr (PStr (U ''Hi'')) \<and>
        py_path (sample_page ''p1'') response_path = Inr (PStr (U ''Hello'')) \<and>
        \<not> py_truthy (fst (get_rating_from_ai ?e3 (U ''Be clear.'') (PStr (U ''Hi'')) (PStr (U ''Hello'')) [])) \<and>
        respond ?e3 ([] @ [?chat, error_update (PStr (U ''p1''))]) = Inl (OtherError ''RequestTimeoutError'') \<and>
        OtherError ''RequestTimeoutError'' \<noteq> KeyError \<and>
        OtherError ''RequestTimeoutError'' \<noteq> IndexError"
    using p g3 by (simp add: sample_env_def scripted_second)
  note c = failed_error_write_propagates [of ?e3 "[]" "PStr (U ''p1'')" _ "sample_page ''p1''"
      "(U ''Be clear.'')" "[sample_page ''p2'']",
      THEN conjunct2, THEN conjunct2, THEN conjunct1, rule_format, OF h3]
  have g4: "get_rating_from_ai ?e4 (U ''Be clear.'') (PStr (U ''Hi'')) (PStr (U ''Hello'')) [] = (PNone, [?chat])"
    using get_rating_from_ai_service_error [of ?e4 "[]" "(U ''Be clear.'')" "PStr (U ''Hi'')" "PStr (U ''Hello'')"]
    by (simp add: sample_env_def scripted_first)
  have h4: "py_getitem (sample_page ''p1'') (PStr (U ''id'')) = Inr (PStr (U ''p1'')) \<and>
        py_path (sample_page ''p1'') prompt_path = Inr (PStr (U ''Hi'')) \<and>
        py_path (sample_page ''p1'') response_path = Inr (PStr (U ''Hello'')) \<and>
        \<not> py_truthy (fst (get_rating_from_ai ?e4 (U ''Be clear.'') (PStr (U ''Hi'')) (PStr (U ''Hello'')) [])) \<and>
        respond ?e4 ([] @ [?chat, error_update (PStr (U ''p1''))]) = Inl KeyError \<and>
        (KeyError = KeyError \<or> KeyError = IndexError) \<and>
        respond ?e4 ([] @ [?chat, error_update (PStr (U ''p1'')), error_update (PStr (U ''p1''))]) =
          Inl (OtherError ''RequestTimeoutError'')"
    using p g4 by (simp add: sample_env_def scripted_second scripted_third)
  note d = failed_error_write_propagates [of ?e4 "[]" "PStr (U ''p1'')" _ "sample_page ''p1''"
      "(U ''Be clear.'')" "[sample_page ''p2'']",
      THEN conjunct2, THEN conjunct2, THEN conjunct2, THEN conjunct1, rule_format, OF h4]
  let ?r5 = "[(U ''clarity_score'', PInt 4), (U ''evaluation_notes'', PStr (U ''ok''))]"
  let ?e5 = "sample_env [Inr (completion (PStr sample_rating_text)), ?A, ?B]"
  let ?u5 = "PagesUpdate (PStr (U ''p1'')) (PDict (properties_to_update ?e5 ?r5))"
  have pu5: "properties_to_update ?e5 ?r5 =
      [(U ''Evaluation Notes'', PDict [(U ''rich_text'', PList [PDict [(U ''text'', PDict [(U ''content'', PStr (U ''ok''))])]])]), (U ''Status'', PDict [(U ''select'', PDict [(U ''name'', PStr (U ''Rated''))])]), (U ''Clarity Score'', PDict [(U ''number'', PInt 4)])]"
    by code_simp
  have g5: "get_rating_from_ai ?e5 (U ''Be clear.'') (PStr (U ''Hi'')) (PStr (U ''Hello'')) [] =
      (PDict ?r5, [?chat])"
    by code_simp
  have h5: "py_getitem (sample_page ''p1'') (PStr (U ''id'')) = Inr (PStr (U ''p1'')) \<and>
        py_path (sample_page ''p1'') prompt_path = Inr (PStr (U ''Hi'')) \<and>
        py_path (sample_page ''p1'') response_path = Inr (PStr (U ''Hello'')) \<and>
        fst (get_rating_from_ai ?e5 (U ''Be clear.'') (PStr (U ''Hi'')) (PStr (U ''Hello'')) []) = PDict ?r5 \<and>
        ?r5 \<noteq> [] \<and>
        respond ?e5 ([] @ [?chat, ?u5]) = Inl (OtherError ''APIResponseError'') \<and>
        respond ?e5 ([] @ [?chat, ?u5, error_update (PStr (U ''p1''))]) =
          Inl (OtherError ''RequestTimeoutError'') \<and>
        OtherError ''RequestTimeoutError'' \<noteq> KeyError \<and>
        OtherError ''RequestTimeoutError'' \<noteq> IndexError"
    using p g5 by (simp add: sample_env_def scripted_second scripted_third)
  note f = failed_error_write_propagates [of ?e5 "[]" "PStr (U ''p1'')" ?r5 "sample_page ''p1''"
      "(U ''Be clear.'')" "[sample_page ''p2'']",
      THEN conjunct2, THEN conjunct2, THEN conjunct2, THEN conjunct2, rule_format, OF h5]
  from a [unfolded pu] b c d f [unfolded pu5] show ?thesis by simp
qed

section \<open>Facts about the reader of the criteria\<close>

lemma strip_blank_iff: "strip e s = [] \<longleftrightarrow> (\<forall>c \<in> set s. is_whitespace e c)"
proof
  assume "strip e s = []"
  then have "\<forall>c \<in> set (dropWhile (is_whitespace e) s). is_whitespace e c"
    by (simp add: strip_def dropWhile_eq_Nil_conv)
  then have "dropWhile (is_whitespace e) s = []"
    using hd_dropWhile [of "is_whitespace e" s] hd_in_set [of "dropWhile (is_whitespace e) s"] by blast
  then show "\<forall>c \<in> set s. is_whitespace e c"
    by (simp add: dropWhile_eq_Nil_conv)
next
  assume "\<forall>c \<in> set s. is_whitespace e c"
  then have d: "dropWhile (is_whitespace e) s = []" by (simp add: dropWhile_eq_Nil_conv)
  show "strip e s = []" unfolding strip_def d by simp
qed

lemma append_plain_texts_runs:
  "those (map spec_run_text runs) = Some ss \<Longrightarrow>
     append_plain_texts runs acc = Inr (acc @ map PStr ss)"
proof (induction runs arbitrary: acc ss)
  case Nil
  then show ?case by simp
next
  case (Cons run runs)
  from Cons.prems obtain s rest where s: "spec_run_text run = Some s"
    and rest: "those (map spec_run_text runs) = Some rest" and ss: "ss = s # rest"
    by (auto split: option.splits)
  from s obtain r where run: "run = PDict r" and pt: "map_of r (U ''plain_text'') = Some (PStr s)"
    by (cases run) (auto split: option.splits pyval.splits)
  show ?case
    by (simp add: run pt Cons.IH [OF rest] ss)
qed

lemma block_step_runs:
  assumes "spec_block_runs block = Some ss"
  shows "block_step block acc = Inr (acc @ map PStr ss)"
proof -
  from assms obtain b where b: "block = PDict b" by (cases block) auto
  from assms b obtain ty where ty: "map_of b (U ''type'') = Some (PStr ty)"
    by (auto split: option.splits pyval.splits)
  show ?thesis
  proof (cases "map_of b ty")
    case None
    with assms b ty have "ss = []" by simp
    with None b ty show ?thesis
      by (simp add: block_step_def and_then_def)
  next
    case (Some sub)
    with assms b ty obtain d where d: "sub = PDict d"
      by (cases sub) auto
    show ?thesis
    proof (cases "map_of d (U ''rich_text'')")
      case None
      with assms b ty Some d have "ss = []" by simp
      moreover from None have "(U ''rich_text'') \<notin> fst ` set d"
        by (simp add: map_of_eq_None_iff)
      ultimately show ?thesis using b ty Some d
        by (simp add: block_step_def and_then_def)
    next
      case (Some rt)
      with assms b ty \<open>map_of b ty = Some sub\<close> d obtain runs where
        rt: "rt = PList runs" and runs: "those (map spec_run_text runs) = Some ss"
        by (cases rt) auto
      from Some have "(U ''rich_text'') \<in> fst ` set d"
        by (metis map_of_eq_None_iff option.distinct(1))
      then show ?thesis using b ty \<open>map_of b ty = Some sub\<close> d Some rt
        by (simp add: block_step_def and_then_def append_plain_texts_runs [OF runs])
    qed
  qed
qed

lemma collect_blocks_runs:
  "those (map spec_block_runs blocks) = Some runs \<Longrightarrow>
     collect_blocks blocks acc = Inr (acc @ map PStr (concat runs))"
proof (induction blocks arbitrary: acc runs)
  case Nil
  then show ?case by simp
next
  case (Cons block blocks)
  from Cons.prems obtain ss rest where ss: "spec_block_runs block = Some ss"
    and rest: "those (map spec_block_runs blocks) = Some rest" and runs: "runs = ss # rest"
    by (auto split: option.splits)
  show ?case
    by (simp add: block_step_runs [OF ss] Cons.IH [OF rest] runs)
qed

lemma str_items_strs: "str_items (map PStr ss) = Inr ss"
  by (induction ss) auto

lemma join_newline_lines: "join_strs newline ss = spec_lines ss"
  by (induction ss rule: spec_lines.induct) (simp_all add: newline_def)

lemma py_join_strs: "py_join sep (map PStr ss) = Inr (join_strs sep ss)"
  by (simp add: py_join_def str_items_strs)

lemma full_criteria_document:
  assumes "map_of response (U ''results'') = Some (PList blocks)"
    and "spec_document_text blocks = Some s"
  shows "full_criteria (PDict response) = Inr s"
proof -
  from assms(2) obtain runs where runs: "those (map spec_block_runs blocks) = Some runs"
    and s: "s = spec_lines (concat runs)"
    by (auto simp: spec_document_text_def split: option.splits)
  show ?thesis
    using collect_blocks_runs [OF runs, of "[]"]
    by (simp add: full_criteria_def and_then_def assms(1) py_join_strs s join_newline_lines)
qed

lemma get_rating_criteria_eq:
  "get_rating_criteria e tr =
     ((case respond e (tr @ [BlocksChildrenList (STANDARDS_PAGE_ID e)]) of
         Inl ex \<Rightarrow> None
       | Inr response \<Rightarrow>
           (case full_criteria response of
              Inl ex \<Rightarrow> None
            | Inr s \<Rightarrow> if strip e s = [] then None else Some s)),
      tr @ [BlocksChildrenList (STANDARDS_PAGE_ID e)])"
  by (simp add: get_rating_criteria_def do_call_def criteria_of_response_def and_then_def
      split: sum.splits)


text \<open>
  Claim C3, as stated, fails on a page whose only block is a paragraph with the one text run
  \<^verbatim>\<open>"  "\<close> (two spaces, code point 32): the block carries a text run, the text of the document
  is that run, and \<^verbatim>\<open>get_rating_criteria\<close> returns \<^verbatim>\<open>None\<close>.
\<close>

theorem blank_document_counterexample:
  "spec_block_runs (text_block ''paragraph'' [''  '']) = Some [[32, 32]]
   \<and> spec_document_text [text_block ''paragraph'' [''  '']] = Some [32, 32]
   \<and> get_rating_criteria
        (sample_env [Inr (results_response [text_block ''paragraph'' [''  '']])]) [] =
       (None, [BlocksChildrenList (U ''standards'')])"
  by code_simp

text \<open>
  Claim C3, amended. When the request returns a list of well-formed blocks, the joined text of
  the code is the text of the document as the specification words it, and
  \<^verbatim>\<open>get_rating_criteria\<close> returns exactly that text, unless every code point of it is
  whitespace for the interpreter (the empty text included): then it returns \<^verbatim>\<open>None\<close>. The text
  of the document is the plain text of all runs, block after block and, inside a block, run
  after run, with a line feed between one run and the next; the runs of a block are those of
  the \<open>rich_text\<close> list under its own type key; a block with nothing, or with a dict that has
  no \<open>rich_text\<close>, under its own type key has no runs.
\<close>

theorem get_rating_criteria_document_text:
  "(\<forall>response blocks s.
      respond e (tr @ [BlocksChildrenList (STANDARDS_PAGE_ID e)]) = Inr (PDict response) \<and>
      map_of response (U ''results'') = Some (PList blocks) \<and>
      spec_document_text blocks = Some s \<longrightarrow>
      fst (get_rating_criteria e tr) = (if \<forall>c \<in> set s. is_whitespace e c then None else Some s))
   \<and> (\<forall>block ty.
        map_of block (U ''type'') = Some (PStr ty) \<and>
        (map_of block ty = None \<or>
         (\<exists>sub. map_of block ty = Some (PDict sub) \<and> map_of sub (U ''rich_text'') = None)) \<longrightarrow>
        spec_block_runs (PDict block) = Some [])
   \<and> (\<forall>block ty sub runs.
        map_of block (U ''type'') = Some (PStr ty) \<and> map_of block ty = Some (PDict sub) \<and>
        map_of sub (U ''rich_text'') = Some (PList runs) \<longrightarrow>
        spec_block_runs (PDict block) = those (map spec_run_text runs))
   \<and> (\<forall>run s. map_of run (U ''plain_text'') = Some (PStr s) \<longrightarrow>
        spec_run_text (PDict run) = Some s)
   \<and> (\<forall>blocks runs.
        those (map spec_block_runs blocks) = Some runs \<longrightarrow>
        spec_document_text blocks = Some (spec_lines (concat runs)))
   \<and> spec_lines [a, b, c] = a @ [10] @ b @ [10] @ c
   \<and> newline = [10]"
proof (intro conjI allI impI)
  fix response blocks s
  assume h: "respond e (tr @ [BlocksChildrenList (STANDARDS_PAGE_ID e)]) = Inr (PDict response) \<and>
      map_of response (U ''results'') = Some (PList blocks) \<and>
      spec_document_text blocks = Some s"
  then have "full_criteria (PDict response) = Inr s"
    using full_criteria_document by blast
  with h show "fst (get_rating_criteria e tr) =
      (if \<forall>c \<in> set s. is_whitespace e c then None else Some s)"
    by (simp add: get_rating_criteria_eq strip_blank_iff)
next
  fix block ty
  assume "map_of block (U ''type'') = Some (PStr ty) \<and>
        (map_of block ty = None \<or>
         (\<exists>sub. map_of block ty = Some (PDict sub) \<and> map_of sub (U ''rich_text'') = None))"
  then show "spec_block_runs (PDict block) = Some []"
    by auto
next
  fix block ty sub runs
  assume "map_of block (U ''type'') = Some (PStr ty) \<and> map_of block ty = Some (PDict sub) \<and>
        map_of sub (U ''rich_text'') = Some (PList runs)"
  then show "spec_block_runs (PDict block) = those (map spec_run_text runs)"
    by simp
next
  fix run s
  assume "map_of run (U ''plain_text'') = Some (PStr s)"
  then show "spec_run_text (PDict run) = Some s" by simp
next
  fix blocks runs
  assume "those (map spec_block_runs blocks) = Some runs"
  then show "spec_document_text blocks = Some (spec_lines (concat runs))"
    by (simp add: spec_document_text_def)
next
  show "spec_lines [a, b, c] = a @ [10] @ b @ [10] @ c" by simp
next
  show "newline = [10]" by (simp add: newline_def)
qed

theorem get_rating_criteria_document_text_witness:
  "spec_document_text sample_blocks =
     Some (U ''Clarity'' @ [10] @ U ''Answers are '' @ [10] @ U ''short.'')
   \<and> spec_block_runs divider_block = Some []
   \<and> get_rating_criteria (sample_env [Inr (results_response sample_blocks)]) [] =
       (Some (U ''Clarity'' @ [10] @ U ''Answers are '' @ [10] @ U ''short.''),
        [BlocksChildrenList (U ''standards'')])"
proof -
  let ?e = "sample_env [Inr (results_response sample_blocks)]"
  let ?s = "U ''Clarity'' @ [10] @ U ''Answers are '' @ [10] @ U ''short.''"
  let ?response = "[(U ''object'', PStr (U ''list'')), (U ''results'', PList sample_blocks)]"
  let ?runs = "[[U ''Clarity''], [], [U ''Answers are '', U ''short.'']]"
  note t = get_rating_criteria_document_text [where e = ?e and tr = "[]"]
  have r: "those (map spec_block_runs sample_blocks) = Some ?runs"
    by code_simp
  have j: "spec_lines (concat ?runs) = ?s"
    by simp
  have d: "spec_document_text sample_blocks = Some ?s"
    using t [THEN conjunct2, THEN conjunct2, THEN conjunct2, THEN conjunct2, THEN conjunct1,
        rule_format, OF r] j by simp
  let ?div = "[(U ''object'', PStr (U ''block'')), (U ''type'', PStr (U ''divider'')),
               (U ''divider'', PDict [])]"
  have k: "map_of ?div (U ''type'') = Some (PStr (U ''divider'')) \<and>
        (map_of ?div (U ''divider'') = None \<or>
         (\<exists>sub. map_of ?div (U ''divider'') = Some (PDict sub) \<and>
                map_of sub (U ''rich_text'') = None))"
    by simp
  have v: "spec_block_runs divider_block = Some []"
    using t [THEN conjunct2, THEN conjunct1, rule_format, OF k] by (simp add: divider_block_def)
  have h: "respond ?e ([] @ [BlocksChildrenList (STANDARDS_PAGE_ID ?e)]) = Inr (PDict ?response) \<and>
      map_of ?response (U ''results'') = Some (PList sample_blocks) \<and>
      spec_document_text sample_blocks = Some ?s"
    using d by (simp add: sample_env_def scripted_first results_response_def)
  have b: "\<not> (\<forall>c \<in> set ?s. is_whitespace ?e c)"
    by code_simp
  have f: "fst (get_rating_criteria ?e []) = Some ?s"
    using t [THEN conjunct1, rule_format, OF h] b by simp
  have g: "snd (get_rating_criteria ?e []) = [BlocksChildrenList (U ''standards'')]"
    using get_rating_criteria_trace [of ?e "[]"] by (simp add: sample_env_def)
  from d v f g show ?thesis by (simp add: prod_eq_iff)
qed




end
